theory Spec2Isabelle
  imports Complex_Main
begin

section \<open>JavaScript numbers that carry coin amounts\<close>

text \<open>
  The chain node supplies an output's amount as a decimal number of coins, which the
  JavaScript runtime holds as an IEEE-754 binary64 value. A finite binary64 value is an
  integer mantissa times a power of two; \<open>Dbl m e\<close> stands for \<open>m * 2 ^ e\<close>.
  Only the operations the indexers apply to amounts are modelled: the product
  \<open>output.value * 100000000\<close> (one correctly rounded binary64 multiplication, round to
  nearest, ties to even), \<open>Math.round\<close>, and the reading of a decimal literal.
  Amounts of coins are far from the overflow and subnormal ranges, which are left out.
\<close>

datatype double = Dbl (mant: int) (expo: int)

definition pow2 :: "int \<Rightarrow> rat" where
  "pow2 e = (if 0 \<le> e then 2 ^ nat e else 1 / 2 ^ nat (- e))"

definition dbl_val :: "double \<Rightarrow> rat" where
  "dbl_val x = of_int (mant x) * pow2 (expo x)"

text \<open>The number of binary digits of a positive integer.\<close>

function bits :: "int \<Rightarrow> int" where
  "bits n = (if n \<le> 0 then 0 else 1 + bits (n div 2))"
  by pat_completeness auto
termination
  by (relation "measure nat") auto

definition round_half_even :: "int \<Rightarrow> int \<Rightarrow> int" where
  "round_half_even n d =
     (let q = n div d; r = n mod d
      in if 2 * r < d then q else if d < 2 * r then q + 1
         else if even q then q else q + 1)"

text \<open>Rounding the non-negative value \<open>M * 2 ^ e\<close> to a 53-bit mantissa.\<close>

definition round53 :: "int \<Rightarrow> int \<Rightarrow> double" where
  "round53 M e =
     (let b = bits M
      in if b \<le> 53 then Dbl M e
         else Dbl (round_half_even M (2 ^ nat (b - 53))) (e + (b - 53)))"

definition js_mul :: "double \<Rightarrow> double \<Rightarrow> double" where
  "js_mul x y =
     (let M = mant x * mant y; e = expo x + expo y
      in if M < 0 then (case round53 (- M) e of Dbl m e' \<Rightarrow> Dbl (- m) e')
         else round53 M e)"

text \<open>\<open>Math.round\<close>: the nearest integer, halves going up.\<close>

definition Math_round :: "double \<Rightarrow> int" where
  "Math_round x =
     (if 0 \<le> expo x then mant x * 2 ^ nat (expo x)
      else (2 * mant x + 2 ^ nat (- expo x)) div 2 ^ nat (1 - expo x))"

text \<open>
  The binary64 value nearest to the positive fraction \<open>n / d\<close>: what the runtime holds
  after parsing the node's decimal literal (\<open>0.07\<close> is \<open>js_number 7 100\<close>).
\<close>

definition js_number :: "int \<Rightarrow> int \<Rightarrow> double" where
  "js_number n d =
     (let k = bits n - bits d;
          l = (if 0 \<le> k then (if d * 2 ^ nat k \<le> n then k else k - 1)
               else (if d \<le> n * 2 ^ nat (- k) then k else k - 1));
          e = l - 52
      in if 0 \<le> e then Dbl (round_half_even n (d * 2 ^ nat e)) e
         else Dbl (round_half_even (n * 2 ^ nat (- e)) d) e)"

definition coin :: double where
  "coin = Dbl 100000000 0"

section \<open>Data supplied by the chain node\<close>

datatype err = RpcError int | DbError

record rpc_input =
  in_txid :: "string option"
  in_vout :: "nat option"
  in_n :: "nat option"
  in_coinbase :: "string option"

record rpc_output =
  out_value :: double
  out_n :: nat
  out_hex :: string
  out_address :: "string option"
  out_addresses :: "string list option"

record rpc_tx =
  tx_txid :: string
  tx_vin :: "rpc_input list"
  tx_vout :: "rpc_output list"
  tx_blockhash :: "string option"
  tx_blockheight :: "int option"
  tx_blocktime :: "int option"
  tx_confirmations :: "int option"
  tx_fee :: "double option"

record rpc_block =
  blk_hash :: string
  blk_height :: int
  blk_time :: int
  blk_tx :: "string list"
  blk_confirmations :: int

record rpc =
  getBlockHash :: "int \<Rightarrow> err + string"
  getBlock :: "string \<Rightarrow> err + rpc_block"
  getTransaction :: "string \<Rightarrow> err + rpc_tx"

text \<open>JavaScript truthiness of an optional string: defined and not empty.\<close>

definition truthy :: "string option \<Rightarrow> bool" where
  "truthy x = (case x of None \<Rightarrow> False | Some s \<Rightarrow> s \<noteq> [])"

text \<open>\<open>scriptPubKey?.address || scriptPubKey?.addresses?.[0]\<close>\<close>

definition first_address :: "rpc_output \<Rightarrow> string option" where
  "first_address out =
     (if truthy (out_address out) then out_address out
      else (case out_addresses out of None \<Rightarrow> None | Some [] \<Rightarrow> None | Some (a # _) \<Rightarrow> Some a))"

text \<open>\<open>BitcoinRpcClient.getBlockByHeight\<close>\<close>

definition getBlockByHeight_rpc :: "rpc \<Rightarrow> int \<Rightarrow> err + rpc_block" where
  "getBlockByHeight_rpc r height =
     (case getBlockHash r height of Inl e \<Rightarrow> Inl e | Inr h \<Rightarrow> getBlock r h)"

section \<open>The TypeORM store and \<open>DatabaseService\<close>\<close>

text \<open>
  The store is PostgreSQL, with the tables the entity classes declare. Two column types
  decide what a row keeps of the value it is handed.

  A \<open>varchar(n)\<close> column keeps a string of at most \<open>n\<close> characters as it is; of a longer
  one it keeps the first \<open>n\<close> characters when all the others are spaces, and rejects it
  otherwise. \<open>varchar_null\<close> is the same for a nullable column.

  A \<open>numeric(20,0)\<close> column is handed the decimal text of a number and keeps the
  nearest integer, halves going away from zero; an integer of more than 20 digits is
  rejected. The text of a binary64 value is the shortest decimal that reads back as
  that value: below 2 to the power 53 in magnitude it lies on the same side of every
  half-integer as the value itself, so the integer kept is the one nearest to the
  value. Amounts of 2 to the power 53 minor units and more (ninety million coins),
  whose text may denote a neighbouring integer, are left out.
\<close>

definition varchar :: "nat \<Rightarrow> string \<Rightarrow> string option" where
  "varchar n s =
     (if length s \<le> n then Some s
      else if list_all (\<lambda>c. c = CHR '' '') (drop n s) then Some (take n s)
      else None)"

definition varchar_null :: "nat \<Rightarrow> string option \<Rightarrow> string option option" where
  "varchar_null n x = (case x of None \<Rightarrow> Some None | Some s \<Rightarrow> map_option Some (varchar n s))"

definition round_half_away :: "double \<Rightarrow> int" where
  "round_half_away x =
     (if 0 \<le> mant x then Math_round x else - Math_round (Dbl (- mant x) (expo x)))"

definition numeric_20_0 :: "double \<Rightarrow> int option" where
  "numeric_20_0 x =
     (let n = round_half_away x in if \<bar>n\<bar> < 10 ^ 20 then Some n else None)"

text \<open>
  One record per entity, with the columns the indexing code reads or writes and the
  constraints on them: the unique indexes on a block's hash and height, on a
  transaction's txid and on an address, the foreign keys from a transaction's
  \<open>block_hash\<close> to a block's hash and from the \<open>transaction_id\<close> of an input and of an
  output to a transaction's txid, and the column types above. Scripts' assembly text,
  script types, sizes and timestamps are left out and taken to be values the store
  accepts, as are the numbers of the integer columns. The other numeric(20,0) columns,
  which the code holds as decimal strings and reads with \<open>BigInt\<close>, are integers. The
  \<open>Address\<close> table has a unique index on the address, so it is a map from the
  address; the other tables are lists in insertion order. The \<open>UTXO\<close> entity has no
  foreign key; its columns are those \<open>DatabaseService\<close> uses, \<open>is_spent\<close> starting
  false as in \<open>TransactionOutput\<close>. Its txid, address and value columns have the types
  of the output table's, and \<open>saveUTXO\<close> is called with the txid, the address and the
  rounded value of an output whose row has just been saved, so what the output table
  accepted is taken to be accepted here.
\<close>

record block_row =
  b_hash :: string
  b_height :: int

record tx_row =
  t_txid :: string
  t_block_hash :: "string option"
  t_block_height :: "int option"
  t_is_coinbase :: bool
  t_total_input_value :: int
  t_total_output_value :: int
  t_fee :: int

record input_row =
  i_transaction_id :: string
  i_input_index :: nat
  i_previous_output_txid :: "string option"
  i_previous_output_index :: "nat option"
  i_coinbase :: "string option"

record output_row =
  o_transaction_id :: string
  o_output_index :: nat
  o_value :: int
  o_script_pub_key :: string
  o_address :: "string option"
  o_is_spent :: bool

record address_row =
  balance :: int
  total_received :: int
  total_sent :: int
  transaction_count :: int
  utxo_count :: int

record utxo_row =
  u_transaction_id :: string
  u_output_index :: nat
  u_address :: string
  u_value :: int
  u_script_pub_key :: string
  u_block_height :: int
  u_block_time :: int
  u_is_spent :: bool
  u_spent_by_txid :: "string option"
  u_spent_by_input_index :: "nat option"
  u_spent_at_height :: "int option"

record db =
  blocks :: "block_row list"
  transactions :: "tx_row list"
  inputs :: "input_row list"
  outputs :: "output_row list"
  addresses :: "string \<rightharpoonup> address_row"
  utxos :: "utxo_row list"
  last_processed_height :: "int option"

definition empty_db :: db where
  "empty_db = \<lparr>blocks = [], transactions = [], inputs = [], outputs = [],
     addresses = Map.empty, utxos = [], last_processed_height = None\<rparr>"

text \<open>
  The save operations look the row up first and return the stored one when there is
  one; otherwise they insert, and rethrow what the store raises. A rejected insert
  leaves the store as it was, so the error alone is returned.
\<close>

definition saveBlock :: "db \<Rightarrow> rpc_block \<Rightarrow> err + db" where
  "saveBlock s blockData =
     (case find (\<lambda>b. b_hash b = blk_hash blockData) (blocks s) of
        Some existingBlock \<Rightarrow> Inr s
      | None \<Rightarrow>
          (case varchar 64 (blk_hash blockData) of
             None \<Rightarrow> Inl DbError
           | Some hash \<Rightarrow>
               if list_ex (\<lambda>b. b_hash b = hash \<or> b_height b = blk_height blockData) (blocks s)
               then Inl DbError
               else Inr (s\<lparr>blocks := blocks s @
                      [\<lparr>b_hash = hash, b_height = blk_height blockData\<rparr>]\<rparr>)))"

definition getBlockByHeight :: "db \<Rightarrow> int \<Rightarrow> block_row option" where
  "getBlockByHeight s height = find (\<lambda>b. b_height b = height) (blocks s)"

definition saveTransaction :: "db \<Rightarrow> rpc_tx \<Rightarrow> int \<Rightarrow> err + db" where
  "saveTransaction s txData blockHeight =
     (case find (\<lambda>t. t_txid t = tx_txid txData) (transactions s) of
        Some existingTx \<Rightarrow> Inr s
      | None \<Rightarrow>
          (case (varchar 64 (tx_txid txData),
                 varchar_null 64 (if truthy (tx_blockhash txData) then tx_blockhash txData
                                  else None)) of
             (Some txid, Some block_hash) \<Rightarrow>
               if list_ex (\<lambda>t. t_txid t = txid) (transactions s) then Inl DbError
               else if (case block_hash of
                          None \<Rightarrow> True
                        | Some h \<Rightarrow> list_ex (\<lambda>b. b_hash b = h) (blocks s))
               then Inr (s\<lparr>transactions := transactions s @
                      [\<lparr>t_txid = txid,
                        t_block_hash = block_hash,
                        t_block_height = (if blockHeight = 0 then None else Some blockHeight),
                        t_is_coinbase =
                          (case tx_vin txData of [] \<Rightarrow> False | i # _ \<Rightarrow> truthy (in_coinbase i)),
                        t_total_input_value = 0,
                        t_total_output_value = 0,
                        t_fee = 0\<rparr>]\<rparr>)
               else Inl DbError
           | _ \<Rightarrow> Inl DbError))"

definition saveTransactionInput :: "db \<Rightarrow> rpc_input \<Rightarrow> string \<Rightarrow> err + db" where
  "saveTransactionInput s inputData transactionId =
     (let idx = (case in_n inputData of None \<Rightarrow> 0 | Some k \<Rightarrow> k)
      in case find (\<lambda>i. i_transaction_id i = transactionId \<and> i_input_index i = idx) (inputs s) of
           Some existingInput \<Rightarrow> Inr s
         | None \<Rightarrow>
             (case (varchar 64 transactionId,
                    varchar_null 64 (in_txid inputData),
                    varchar_null 64 (in_coinbase inputData)) of
                (Some transaction_id, Some previous_output_txid, Some coinbase) \<Rightarrow>
                  if list_ex (\<lambda>t. t_txid t = transaction_id) (transactions s)
                  then Inr (s\<lparr>inputs := inputs s @
                         [\<lparr>i_transaction_id = transaction_id,
                           i_input_index = idx,
                           i_previous_output_txid = previous_output_txid,
                           i_previous_output_index = in_vout inputData,
                           i_coinbase = coinbase\<rparr>]\<rparr>)
                  else Inl DbError
              | _ \<Rightarrow> Inl DbError))"

definition saveTransactionOutput :: "db \<Rightarrow> rpc_output \<Rightarrow> string \<Rightarrow> err + db" where
  "saveTransactionOutput s outputData transactionId =
     (case find (\<lambda>out. o_transaction_id out = transactionId \<and> o_output_index out = out_n outputData)
             (outputs s) of
        Some existingOutput \<Rightarrow> Inr s
      | None \<Rightarrow>
          (case (varchar 64 transactionId,
                 numeric_20_0 (js_mul (out_value outputData) coin),
                 varchar_null 64 (first_address outputData)) of
             (Some transaction_id, Some val, Some address) \<Rightarrow>
               if list_ex (\<lambda>t. t_txid t = transaction_id) (transactions s)
               then Inr (s\<lparr>outputs := outputs s @
                      [\<lparr>o_transaction_id = transaction_id,
                        o_output_index = out_n outputData,
                        o_value = val,
                        o_script_pub_key = out_hex outputData,
                        o_address = address,
                        o_is_spent = False\<rparr>]\<rparr>)
               else Inl DbError
           | _ \<Rightarrow> Inl DbError))"

text \<open>
  \<open>updateAddressBalance\<close> runs its body in a store transaction of its own and catches
  whatever that throws. \<open>fails\<close> says whether the store rejects that transaction; a
  rejected transaction leaves the store as it was.
\<close>

definition updateAddressBalance_transaction :: "bool \<Rightarrow> db \<Rightarrow> string \<Rightarrow> int \<Rightarrow> bool \<Rightarrow> err + db" where
  "updateAddressBalance_transaction fails s addressStr balanceChange isReceived =
     (let address = (case addresses s addressStr of
                       Some a \<Rightarrow> a
                     | None \<Rightarrow> \<lparr>balance = 0, total_received = 0, total_sent = 0,
                                 transaction_count = 0, utxo_count = 0\<rparr>);
          currentBalance = balance address;
          currentReceived = total_received address;
          currentSent = total_sent address;
          address1 = (if isReceived
                      then address\<lparr>balance := currentBalance + balanceChange,
                                   total_received := currentReceived + balanceChange\<rparr>
                      else address\<lparr>balance := currentBalance - balanceChange,
                                   total_sent := currentSent + balanceChange\<rparr>);
          address2 = address1\<lparr>transaction_count := transaction_count address1 + 1\<rparr>
      in if fails then Inl DbError
         else Inr (s\<lparr>addresses := (addresses s)(addressStr \<mapsto> address2)\<rparr>))"

definition updateAddressBalance :: "bool \<Rightarrow> db \<Rightarrow> string \<Rightarrow> int \<Rightarrow> bool \<Rightarrow> err + db" where
  "updateAddressBalance fails s addressStr balanceChange isReceived =
     (case updateAddressBalance_transaction fails s addressStr balanceChange isReceived of
        Inl error \<Rightarrow> Inr s
      | Inr s' \<Rightarrow> Inr s')"

definition saveUTXO :: "db \<Rightarrow> string \<Rightarrow> nat \<Rightarrow> string \<Rightarrow> int \<Rightarrow> string \<Rightarrow> int \<Rightarrow> int \<Rightarrow> db" where
  "saveUTXO s txid outputIndex addressStr val scriptPubKey blockHeight blockTime =
     (case find (\<lambda>u. u_transaction_id u = txid \<and> u_output_index u = outputIndex) (utxos s) of
        Some existingUTXO \<Rightarrow> s
      | None \<Rightarrow> s\<lparr>utxos := utxos s @
          [\<lparr>u_transaction_id = txid,
            u_output_index = outputIndex,
            u_address = addressStr,
            u_value = val,
            u_script_pub_key = scriptPubKey,
            u_block_height = blockHeight,
            u_block_time = blockTime,
            u_is_spent = False,
            u_spent_by_txid = None,
            u_spent_by_input_index = None,
            u_spent_at_height = None\<rparr>]\<rparr>)"

definition spendUTXO :: "db \<Rightarrow> string \<Rightarrow> nat \<Rightarrow> string \<Rightarrow> nat \<Rightarrow> int \<Rightarrow> db" where
  "spendUTXO s txid outputIndex spentByTxid spentByInputIndex spentAtHeight =
     s\<lparr>utxos := map (\<lambda>u. if u_transaction_id u = txid \<and> u_output_index u = outputIndex
                          then u\<lparr>u_is_spent := True,
                                 u_spent_by_txid := Some spentByTxid,
                                 u_spent_by_input_index := Some spentByInputIndex,
                                 u_spent_at_height := Some spentAtHeight\<rparr>
                          else u) (utxos s)\<rparr>"

definition getUTXOByTxidAndIndex :: "db \<Rightarrow> string \<Rightarrow> nat \<Rightarrow> utxo_row option" where
  "getUTXOByTxidAndIndex s txid outputIndex =
     find (\<lambda>u. u_transaction_id u = txid \<and> u_output_index u = outputIndex) (utxos s)"

definition getUTXOsByAddress :: "db \<Rightarrow> string \<Rightarrow> utxo_row list" where
  "getUTXOsByAddress s addressStr =
     filter (\<lambda>u. u_address u = addressStr \<and> \<not> u_is_spent u) (utxos s)"

definition setLastProcessedHeight :: "db \<Rightarrow> int \<Rightarrow> db" where
  "setLastProcessedHeight s height = s\<lparr>last_processed_height := Some height\<rparr>"

text \<open>
  \<open>recalculateAddressBalances\<close>: every \<open>Address\<close> row is reset, the statistics are
  accumulated per address in a map over three passes (all UTXOs, the spent ones, the
  unspent ones), and each address of the map is written back with \<open>update\<close>, which
  changes a row only where one exists.
\<close>

record address_stats =
  st_balance :: int
  st_totalReceived :: int
  st_totalSent :: int
  st_utxoCount :: int
  st_txCount :: int







section \<open>\<open>TypeORMIndexerAdapter\<close>\<close>

text \<open>
  \<open>fails\<close> tells, per address, whether the store rejects the balance update of that
  address. No store transaction spans a block or a transaction here, so what was
  written before an error stays written: a routine that raises returns the error
  together with the store it has reached.
\<close>

definition processInputSpending :: "(string \<Rightarrow> bool) \<Rightarrow> db \<Rightarrow> rpc_input \<Rightarrow> string \<Rightarrow> int \<Rightarrow> err + db" where
  "processInputSpending fails s input spendingTxid blockHeight =
     (case (in_txid input, in_vout input) of
        (Some previousTxid, Some previousVout) \<Rightarrow>
          (case getUTXOByTxidAndIndex s previousTxid previousVout of
             Some utxo \<Rightarrow>
               if \<not> u_is_spent utxo
               then let s1 = spendUTXO s previousTxid previousVout spendingTxid
                               (case in_n input of None \<Rightarrow> 0 | Some k \<Rightarrow> k) blockHeight;
                        spentValue = u_value utxo
                    in updateAddressBalance (fails (u_address utxo)) s1 (u_address utxo) spentValue False
               else Inr s
           | None \<Rightarrow> Inr s)
      | _ \<Rightarrow> Inr s)"

fun process_inputs :: "(string \<Rightarrow> bool) \<Rightarrow> db \<Rightarrow> rpc_input list \<Rightarrow> string \<Rightarrow> int \<Rightarrow> (err \<times> db) + db" where
  "process_inputs fails s [] txid blockHeight = Inr s"
| "process_inputs fails s (input # rest) txid blockHeight =
     (case saveTransactionInput s input txid of
        Inl e \<Rightarrow> Inl (e, s)
      | Inr s1 \<Rightarrow>
          if truthy (in_txid input) \<and> in_vout input \<noteq> None
          then (case processInputSpending fails s1 input txid blockHeight of
                  Inl e \<Rightarrow> Inl (e, s1)
                | Inr s2 \<Rightarrow> process_inputs fails s2 rest txid blockHeight)
          else process_inputs fails s1 rest txid blockHeight)"

definition credit_output :: "(string \<Rightarrow> bool) \<Rightarrow> db \<Rightarrow> rpc_output \<Rightarrow> string \<Rightarrow> string \<Rightarrow> int \<Rightarrow> int \<Rightarrow> err + db" where
  "credit_output fails s output address txid blockHeight blockTime =
     (let valueSatoshis = Math_round (js_mul (out_value output) coin)
      in case updateAddressBalance (fails address) s address valueSatoshis True of
           Inl e \<Rightarrow> Inl e
         | Inr s1 \<Rightarrow> Inr (saveUTXO s1 txid (out_n output) address valueSatoshis
                              (out_hex output) blockHeight blockTime))"

fun process_outputs :: "(string \<Rightarrow> bool) \<Rightarrow> db \<Rightarrow> rpc_output list \<Rightarrow> string \<Rightarrow> int \<Rightarrow> int \<Rightarrow> (err \<times> db) + db" where
  "process_outputs fails s [] txid blockHeight blockTime = Inr s"
| "process_outputs fails s (output # rest) txid blockHeight blockTime =
     (case saveTransactionOutput s output txid of
        Inl e \<Rightarrow> Inl (e, s)
      | Inr s1 \<Rightarrow>
          (let address = first_address output
           in if truthy address
              then (case credit_output fails s1 output (the address) txid blockHeight blockTime of
                      Inl e \<Rightarrow> Inl (e, s1)
                    | Inr s2 \<Rightarrow> process_outputs fails s2 rest txid blockHeight blockTime)
              else process_outputs fails s1 rest txid blockHeight blockTime))"

definition processTransaction :: "rpc \<Rightarrow> (string \<Rightarrow> bool) \<Rightarrow> db \<Rightarrow> string \<Rightarrow> int \<Rightarrow> int \<Rightarrow> (err \<times> db) + db" where
  "processTransaction r fails s txid blockHeight blockTime =
     (case getTransaction r txid of
        Inl e \<Rightarrow> Inl (e, s)
      | Inr txData \<Rightarrow>
          (case saveTransaction s txData blockHeight of
             Inl e \<Rightarrow> Inl (e, s)
           | Inr s1 \<Rightarrow>
               (case process_inputs fails s1 (tx_vin txData) txid blockHeight of
                  Inl raised \<Rightarrow> Inl raised
                | Inr s2 \<Rightarrow> process_outputs fails s2 (tx_vout txData) txid blockHeight blockTime)))"

definition genesis_address :: string where
  "genesis_address = ''1A1zP1eP5QGefi2DMPTfTL5SLmv7DivfNa''"

definition genesis_hex :: string where
  "genesis_hex = ''4104678afdb0fe5548271967f1a67130b7105cd6a828e03909a67962e0ea1f61deb649f6bc3f4cef38c4f35504e51ec112de5c384df7ba0b8d578a4c702b6bf11d5fac''"

definition genesisTx :: "string \<Rightarrow> rpc_tx" where
  "genesisTx txid =
     \<lparr>tx_txid = txid,
      tx_vin = [\<lparr>in_txid = None, in_vout = None, in_n = None,
                 in_coinbase = Some ''04ffff001d0104455468652054696d65732030332f4a616e2f32303039204368616e63656c6c6f72206f6e206272696e6b206f66207365636f6e64206261696c6f757420666f722062616e6b73''\<rparr>],
      tx_vout = [\<lparr>out_value = Dbl 50 0, out_n = 0, out_hex = genesis_hex,
                  out_address = None, out_addresses = Some [genesis_address]\<rparr>],
      tx_blockhash = None, tx_blockheight = None, tx_blocktime = None,
      tx_confirmations = None, tx_fee = None\<rparr>"

fun genesis_outputs :: "(string \<Rightarrow> bool) \<Rightarrow> db \<Rightarrow> rpc_output list \<Rightarrow> string \<Rightarrow> int \<Rightarrow> int \<Rightarrow> (err \<times> db) + db" where
  "genesis_outputs fails s [] txid blockHeight blockTime = Inr s"
| "genesis_outputs fails s (output # rest) txid blockHeight blockTime =
     (case saveTransactionOutput s output txid of
        Inl e \<Rightarrow> Inl (e, s)
      | Inr s1 \<Rightarrow>
          (let address = (case out_addresses output of
                            None \<Rightarrow> None | Some [] \<Rightarrow> None | Some (a # _) \<Rightarrow> Some a)
           in if truthy address
              then (case credit_output fails s1 output (the address) txid blockHeight blockTime of
                      Inl e \<Rightarrow> Inl (e, s1)
                    | Inr s2 \<Rightarrow> genesis_outputs fails s2 rest txid blockHeight blockTime)
              else genesis_outputs fails s1 rest txid blockHeight blockTime))"

definition processGenesisTransaction :: "(string \<Rightarrow> bool) \<Rightarrow> db \<Rightarrow> string \<Rightarrow> int \<Rightarrow> int \<Rightarrow> (err \<times> db) + db" where
  "processGenesisTransaction fails s txid blockHeight blockTime =
     (case saveTransaction s (genesisTx txid) blockHeight of
        Inl e \<Rightarrow> Inl (e, s)
      | Inr s1 \<Rightarrow> genesis_outputs fails s1 (tx_vout (genesisTx txid)) txid blockHeight blockTime)"

text \<open>
  The transactions of one block, as \<open>syncBlocks\<close> runs them: an error of
  \<open>processTransaction\<close> is caught; with code -5 at height 0 the genesis transaction is
  processed instead (an error of that one leaves the loop), any other error is logged
  and the loop goes on to the next transaction, on the store as the failed one left it.
\<close>

fun process_block_txs :: "rpc \<Rightarrow> (string \<Rightarrow> bool) \<Rightarrow> db \<Rightarrow> string list \<Rightarrow> int \<Rightarrow> int \<Rightarrow> (err \<times> db) + db" where
  "process_block_txs r fails s [] height blockTime = Inr s"
| "process_block_txs r fails s (txid # rest) height blockTime =
     (case processTransaction r fails s txid height blockTime of
        Inr s1 \<Rightarrow> process_block_txs r fails s1 rest height blockTime
      | Inl (error, s1) \<Rightarrow>
          if error = RpcError (- 5) \<and> height = 0
          then (case processGenesisTransaction fails s1 txid height blockTime of
                  Inl raised \<Rightarrow> Inl raised
                | Inr s2 \<Rightarrow> process_block_txs r fails s2 rest height blockTime)
          else process_block_txs r fails s1 rest height blockTime)"

function TypeORM_syncBlocks :: "rpc \<Rightarrow> (string \<Rightarrow> bool) \<Rightarrow> db \<Rightarrow> int \<Rightarrow> int \<Rightarrow> err option \<times> db" where
  "TypeORM_syncBlocks r fails s height toHeight =
     (if height \<le> toHeight
      then (case getBlockByHeight s height of
              Some existingBlock \<Rightarrow>
                TypeORM_syncBlocks r fails (setLastProcessedHeight s height) (height + 1) toHeight
            | None \<Rightarrow>
                (case getBlockHash r height of
                   Inl e \<Rightarrow> (Some e, s)
                 | Inr blockHash \<Rightarrow>
                     (case getBlock r blockHash of
                        Inl e \<Rightarrow> (Some e, s)
                      | Inr blockData \<Rightarrow>
                          (case saveBlock s blockData of
                             Inl e \<Rightarrow> (Some e, s)
                           | Inr s1 \<Rightarrow>
                               (case process_block_txs r fails s1 (blk_tx blockData) height
                                       (blk_time blockData) of
                                  Inl (e, s2) \<Rightarrow> (Some e, s2)
                                | Inr s2 \<Rightarrow>
                                    TypeORM_syncBlocks r fails (setLastProcessedHeight s2 height)
                                      (height + 1) toHeight)))))
      else (None, s))"
  by pat_completeness auto
termination
  by (relation "measure (\<lambda>(r, fails, s, height, toHeight). nat (toHeight + 1 - height))") auto

section \<open>The SQLite store of \<open>BitcoinIndexer\<close> and \<open>SimpleIndexer\<close>\<close>

text \<open>
  The tables of \<open>schema.ts\<close> with the columns the two indexers write, each a list of
  rows. \<open>INSERT OR REPLACE\<close> removes the rows that collide with the new one on a
  primary or unique key and appends it; \<open>INSERT OR IGNORE\<close> adds the row unless one
  collides; \<open>UPDATE\<close> and \<open>DELETE\<close> act on every row that matches. BIGINT columns are
  integers.

  The connection switches foreign keys on. A statement that leaves a row whose foreign
  key is not null and names no parent row is rejected and changes nothing: a
  transaction's \<open>block_hash\<close> must be the hash of a block row, the \<open>txid\<close> of an input,
  of an output and of a UTXO row must be the txid of a transaction row, and the address
  of a UTXO row must have an address row. A replaced row counts as removed, so
  replacing a block row by one with another hash is rejected while a transaction row
  still names the old hash. The NOT NULL columns get values the node always supplies.
\<close>

record lite_block =
  lb_hash :: string
  lb_height :: int
  lb_tx_count :: nat
  lb_confirmations :: int

record lite_tx =
  lt_txid :: string
  lt_block_hash :: "string option"
  lt_block_height :: "int option"
  lt_confirmations :: int
  lt_fee :: "rat option"

record lite_input =
  li_txid :: string
  li_vout :: nat
  li_prev_txid :: "string option"
  li_prev_vout :: "nat option"
  li_prev_value :: "int option"
  li_prev_address :: "string option"

record lite_output =
  lo_txid :: string
  lo_vout :: nat
  lo_value :: int
  lo_script_pub_key :: string
  lo_address :: "string option"
  lo_spent_txid :: "string option"
  lo_spent_vout :: "nat option"
  lo_is_spent :: bool

record lite_address =
  la_address :: string
  la_received_count :: int
  la_sent_count :: int
  la_balance :: int
  la_total_received :: int
  la_total_sent :: int
  la_first_seen_block :: "int option"
  la_last_seen_block :: "int option"

record lite_utxo =
  lu_txid :: string
  lu_vout :: nat
  lu_address :: string
  lu_value :: int
  lu_script_pub_key :: string
  lu_block_height :: int
  lu_is_coinbase :: bool

record lite_db =
  l_blocks :: "lite_block list"
  l_transactions :: "lite_tx list"
  l_inputs :: "lite_input list"
  l_outputs :: "lite_output list"
  l_addresses :: "lite_address list"
  l_utxos :: "lite_utxo list"

definition empty_lite_db :: lite_db where
  "empty_lite_db = \<lparr>l_blocks = [], l_transactions = [], l_inputs = [], l_outputs = [],
     l_addresses = [], l_utxos = []\<rparr>"

definition insert_or_replace :: "('a \<Rightarrow> bool) \<Rightarrow> 'a \<Rightarrow> 'a list \<Rightarrow> 'a list" where
  "insert_or_replace collides row rows = filter (\<lambda>r. \<not> collides r) rows @ [row]"

definition insert_or_ignore :: "('a \<Rightarrow> bool) \<Rightarrow> 'a \<Rightarrow> 'a list \<Rightarrow> 'a list" where
  "insert_or_ignore collides row rows = (if list_ex collides rows then rows else rows @ [row])"

text \<open>The parent rows a foreign key can name.\<close>

definition has_block :: "lite_db \<Rightarrow> string \<Rightarrow> bool" where
  "has_block d h = list_ex (\<lambda>b. lb_hash b = h) (l_blocks d)"

definition has_transaction :: "lite_db \<Rightarrow> string \<Rightarrow> bool" where
  "has_transaction d txid = list_ex (\<lambda>t. lt_txid t = txid) (l_transactions d)"

definition has_address :: "lite_db \<Rightarrow> string \<Rightarrow> bool" where
  "has_address d a = list_ex (\<lambda>row. la_address row = a) (l_addresses d)"

datatype indexer = BitcoinIndexer | SimpleIndexer

text \<open>
  \<open>extractAddress\<close>, \<open>getPreviousOutput\<close>, \<open>markOutputAsSpent\<close>, \<open>addUTXO\<close> and
  \<open>updateAddressInfo\<close> have the same text in both classes.
\<close>

definition extractAddress :: "rpc_output \<Rightarrow> string option" where
  "extractAddress output =
     (if truthy (out_address output) then out_address output
      else (case out_addresses output of
              Some (a # rest) \<Rightarrow> Some a
            | _ \<Rightarrow> None))"

definition getPreviousOutput :: "lite_db \<Rightarrow> string \<Rightarrow> nat \<Rightarrow> lite_output option" where
  "getPreviousOutput d txid vout = find (\<lambda>out. lo_txid out = txid \<and> lo_vout out = vout) (l_outputs d)"

definition markOutputAsSpent :: "lite_db \<Rightarrow> string \<Rightarrow> nat \<Rightarrow> string \<Rightarrow> nat \<Rightarrow> lite_db" where
  "markOutputAsSpent d txid vout spentTxid spentVout =
     (let d1 = d\<lparr>l_outputs := map (\<lambda>out. if lo_txid out = txid \<and> lo_vout out = vout
                                           then out\<lparr>lo_is_spent := True,
                                                    lo_spent_txid := Some spentTxid,
                                                    lo_spent_vout := Some spentVout\<rparr>
                                           else out) (l_outputs d)\<rparr>
      in d1\<lparr>l_utxos := filter (\<lambda>u. \<not> (lu_txid u = txid \<and> lu_vout u = vout)) (l_utxos d1)\<rparr>)"

definition addUTXO :: "lite_db \<Rightarrow> lite_utxo \<Rightarrow> err + lite_db" where
  "addUTXO d utxo =
     (if has_address d (lu_address utxo) \<and> has_transaction d (lu_txid utxo)
      then Inr (d\<lparr>l_utxos := insert_or_replace
                               (\<lambda>u. lu_txid u = lu_txid utxo \<and> lu_vout u = lu_vout utxo)
                               utxo (l_utxos d)\<rparr>)
      else Inl DbError)"

definition updateAddressInfo :: "lite_db \<Rightarrow> string \<Rightarrow> int \<Rightarrow> bool \<Rightarrow> int option \<Rightarrow> lite_db" where
  "updateAddressInfo d address val isReceived blockHeight =
     (let rows = insert_or_ignore (\<lambda>a. la_address a = address)
                   \<lparr>la_address = address, la_received_count = 0, la_sent_count = 0,
                    la_balance = 0, la_total_received = 0, la_total_sent = 0,
                    la_first_seen_block = blockHeight, la_last_seen_block = None\<rparr>
                   (l_addresses d)
      in if isReceived
         then d\<lparr>l_addresses := map (\<lambda>a. if la_address a = address
                    then a\<lparr>la_received_count := la_received_count a + 1,
                           la_balance := la_balance a + val,
                           la_total_received := la_total_received a + val,
                           la_last_seen_block := (case blockHeight of Some h \<Rightarrow> Some h
                                                  | None \<Rightarrow> la_last_seen_block a)\<rparr>
                    else a) rows\<rparr>
         else d\<lparr>l_addresses := map (\<lambda>a. if la_address a = address
                    then a\<lparr>la_sent_count := la_sent_count a + 1,
                           la_balance := la_balance a - val,
                           la_total_sent := la_total_sent a + val,
                           la_last_seen_block := (case blockHeight of Some h \<Rightarrow> Some h
                                                  | None \<Rightarrow> la_last_seen_block a)\<rparr>
                    else a) rows\<rparr>)"

definition is_coinbase_tx :: "rpc_tx \<Rightarrow> bool" where
  "is_coinbase_tx tx = (case tx_vin tx of [] \<Rightarrow> False | i # _ \<Rightarrow> truthy (in_coinbase i))"

definition insert_transaction :: "lite_db \<Rightarrow> lite_tx \<Rightarrow> err + lite_db" where
  "insert_transaction d row =
     (if (case lt_block_hash row of None \<Rightarrow> True | Some h \<Rightarrow> has_block d h)
      then Inr (d\<lparr>l_transactions := insert_or_replace (\<lambda>t. lt_txid t = lt_txid row) row
                                      (l_transactions d)\<rparr>)
      else Inl DbError)"

definition insert_input :: "lite_db \<Rightarrow> lite_input \<Rightarrow> err + lite_db" where
  "insert_input d row =
     (if has_transaction d (li_txid row)
      then Inr (d\<lparr>l_inputs := insert_or_replace
                                (\<lambda>i. li_txid i = li_txid row \<and> li_vout i = li_vout row)
                                row (l_inputs d)\<rparr>)
      else Inl DbError)"

definition insert_output :: "lite_db \<Rightarrow> lite_output \<Rightarrow> err + lite_db" where
  "insert_output d row =
     (if has_transaction d (lo_txid row)
      then Inr (d\<lparr>l_outputs := insert_or_replace
                                 (\<lambda>out. lo_txid out = lo_txid row \<and> lo_vout out = lo_vout row)
                                 row (l_outputs d)\<rparr>)
      else Inl DbError)"

text \<open>
  The input loop of \<open>indexTransaction\<close>, carrying \<open>totalInput\<close>. \<open>SimpleIndexer\<close>
  debits the address of the previous output; \<open>BitcoinIndexer\<close> has no such call. A
  statement the store rejects ends the loop with the error and the store as the
  statements before it left it.
\<close>

fun index_inputs :: "indexer \<Rightarrow> rpc_tx \<Rightarrow> lite_db \<Rightarrow> int \<Rightarrow> nat \<Rightarrow> rpc_input list \<Rightarrow> (err \<times> lite_db) + (lite_db \<times> int)" where
  "index_inputs cls tx d totalInput i [] = Inr (d, totalInput)"
| "index_inputs cls tx d totalInput i (input # rest) =
     (if truthy (in_coinbase input)
      then (case insert_input d \<lparr>li_txid = tx_txid tx, li_vout = i, li_prev_txid = None,
                                  li_prev_vout = None, li_prev_value = None,
                                  li_prev_address = None\<rparr> of
              Inl e \<Rightarrow> Inl (e, d)
            | Inr d1 \<Rightarrow> index_inputs cls tx d1 totalInput (i + 1) rest)
      else if truthy (in_txid input) \<and> in_vout input \<noteq> None
      then (let prev_txid = the (in_txid input);
                prev_vout = the (in_vout input);
                prevOutput = getPreviousOutput d prev_txid prev_vout;
                prev_value = (case prevOutput of None \<Rightarrow> None
                              | Some out \<Rightarrow> if lo_value out = 0 then None else Some (lo_value out));
                prev_address = (case prevOutput of None \<Rightarrow> None
                                | Some out \<Rightarrow> if truthy (lo_address out) then lo_address out else None)
            in case insert_input d \<lparr>li_txid = tx_txid tx, li_vout = i,
                                     li_prev_txid = Some prev_txid, li_prev_vout = Some prev_vout,
                                     li_prev_value = prev_value, li_prev_address = prev_address\<rparr> of
                 Inl e \<Rightarrow> Inl (e, d)
               | Inr d1 \<Rightarrow>
                   (let d2 = markOutputAsSpent d1 prev_txid prev_vout (tx_txid tx) i
                    in case prev_value of
                         Some v \<Rightarrow>
                           (case (cls, prev_address) of
                              (SimpleIndexer, Some a) \<Rightarrow>
                                index_inputs cls tx
                                  (updateAddressInfo d2 a v False (tx_blockheight tx))
                                  (totalInput + v) (i + 1) rest
                            | _ \<Rightarrow> index_inputs cls tx d2 (totalInput + v) (i + 1) rest)
                       | None \<Rightarrow> index_inputs cls tx d2 totalInput (i + 1) rest))
      else index_inputs cls tx d totalInput (i + 1) rest)"

text \<open>
  The output loop, carrying \<open>totalOutput\<close>. \<open>BitcoinIndexer\<close> adds a coinbase output
  to the UTXO table only with at least 100 confirmations; \<open>SimpleIndexer\<close> adds every
  output that has an address. Both add the UTXO row before \<open>updateAddressInfo\<close>
  creates the address row.
\<close>

fun index_outputs :: "indexer \<Rightarrow> rpc_tx \<Rightarrow> lite_db \<Rightarrow> int \<Rightarrow> rpc_output list \<Rightarrow> (err \<times> lite_db) + (lite_db \<times> int)" where
  "index_outputs cls tx d totalOutput [] = Inr (d, totalOutput)"
| "index_outputs cls tx d totalOutput (output # rest) =
     (let address = extractAddress output;
          valueSatoshis = Math_round (js_mul (out_value output) coin);
          utxo = \<lparr>lu_txid = tx_txid tx, lu_vout = out_n output, lu_address = the address,
                  lu_value = valueSatoshis, lu_script_pub_key = out_hex output,
                  lu_block_height = (case tx_blockheight tx of None \<Rightarrow> 0 | Some h \<Rightarrow> h),
                  lu_is_coinbase = is_coinbase_tx tx\<rparr>;
          unspendable = (cls = BitcoinIndexer \<and> is_coinbase_tx tx \<and>
                         \<not> (100 \<le> (case tx_confirmations tx of None \<Rightarrow> 0 | Some c \<Rightarrow> c)))
      in case insert_output d \<lparr>lo_txid = tx_txid tx, lo_vout = out_n output,
                                lo_value = valueSatoshis, lo_script_pub_key = out_hex output,
                                lo_address = address, lo_spent_txid = None,
                                lo_spent_vout = None, lo_is_spent = False\<rparr> of
           Inl e \<Rightarrow> Inl (e, d)
         | Inr d1 \<Rightarrow>
             (case (if truthy address \<and> \<not> unspendable then addUTXO d1 utxo else Inr d1) of
                Inl e \<Rightarrow> Inl (e, d1)
              | Inr d2 \<Rightarrow>
                  index_outputs cls tx
                    (if truthy address
                     then updateAddressInfo d2 (the address) valueSatoshis True (tx_blockheight tx)
                     else d2)
                    (totalOutput + valueSatoshis) rest))"

definition indexTransaction :: "indexer \<Rightarrow> lite_db \<Rightarrow> rpc_tx \<Rightarrow> (err \<times> lite_db) + lite_db" where
  "indexTransaction cls d tx =
     (case insert_transaction d
             \<lparr>lt_txid = tx_txid tx,
              lt_block_hash = (if truthy (tx_blockhash tx) then tx_blockhash tx else None),
              lt_block_height = (case tx_blockheight tx of
                                   Some h \<Rightarrow> if h = 0 then None else Some h | None \<Rightarrow> None),
              lt_confirmations = (case tx_confirmations tx of Some c \<Rightarrow> c | None \<Rightarrow> 0),
              lt_fee = (case tx_fee tx of
                          Some f \<Rightarrow> if dbl_val f = 0 then None else Some (dbl_val f)
                        | None \<Rightarrow> None)\<rparr> of
        Inl e \<Rightarrow> Inl (e, d)
      | Inr d1 \<Rightarrow>
          (case index_inputs cls tx d1 0 0 (tx_vin tx) of
             Inl raised \<Rightarrow> Inl raised
           | Inr (d2, totalInput) \<Rightarrow>
               (case index_outputs cls tx d2 0 (tx_vout tx) of
                  Inl raised \<Rightarrow> Inl raised
                | Inr (d3, totalOutput) \<Rightarrow>
                    if \<not> is_coinbase_tx tx \<and> 0 < totalInput
                    then (let fee = totalInput - totalOutput
                          in Inr (d3\<lparr>l_transactions :=
                                      map (\<lambda>t. if lt_txid t = tx_txid tx
                                                then t\<lparr>lt_fee := Some (of_int fee)\<rparr> else t)
                                          (l_transactions d3)\<rparr>))
                    else Inr d3)))"

definition insert_block :: "lite_db \<Rightarrow> rpc_block \<Rightarrow> err + lite_db" where
  "insert_block d block =
     (let replaced = filter (\<lambda>b. lb_hash b = blk_hash block \<or> lb_height b = blk_height block)
                       (l_blocks d);
          orphaned = list_ex (\<lambda>t. case lt_block_hash t of
                                     None \<Rightarrow> False
                                   | Some h \<Rightarrow> h \<noteq> blk_hash block \<and>
                                               list_ex (\<lambda>b. lb_hash b = h) replaced)
                       (l_transactions d)
      in if orphaned then Inl DbError
         else Inr (d\<lparr>l_blocks := insert_or_replace
                       (\<lambda>b. lb_hash b = blk_hash block \<or> lb_height b = blk_height block)
                       \<lparr>lb_hash = blk_hash block, lb_height = blk_height block,
                        lb_tx_count = length (blk_tx block),
                        lb_confirmations = blk_confirmations block\<rparr>
                       (l_blocks d)\<rparr>))"

definition basic_transaction :: "rpc_block \<Rightarrow> string \<Rightarrow> lite_tx" where
  "basic_transaction block txid =
     \<lparr>lt_txid = txid, lt_block_hash = Some (blk_hash block),
      lt_block_height = Some (blk_height block),
      lt_confirmations = blk_confirmations block, lt_fee = None\<rparr>"

definition in_block :: "rpc_block \<Rightarrow> rpc_tx \<Rightarrow> rpc_tx" where
  "in_block block transaction =
     transaction\<lparr>tx_blockhash := Some (blk_hash block),
                 tx_blockheight := Some (blk_height block),
                 tx_blocktime := Some (blk_time block),
                 tx_confirmations := Some (blk_confirmations block)\<rparr>"

text \<open>
  The transaction loop of \<open>indexBlock\<close>. In \<open>BitcoinIndexer\<close> an error of the node or
  of the store leaves the loop. \<open>SimpleIndexer\<close> stores a basic row for the first
  transaction of height 0 without asking the node; its \<open>try\<close> spans that insert, the
  node's call and \<open>indexTransaction\<close>, and its \<open>catch\<close> stores the basic row on the
  store as the failed attempt left it and goes on; an error of that last insert leaves
  the loop.
\<close>

fun index_block_txs :: "indexer \<Rightarrow> rpc \<Rightarrow> rpc_block \<Rightarrow> lite_db \<Rightarrow> nat \<Rightarrow> string list \<Rightarrow> err + lite_db" where
  "index_block_txs cls r block d i [] = Inr d"
| "index_block_txs BitcoinIndexer r block d i (txid # rest) =
     (case getTransaction r txid of
        Inl e \<Rightarrow> Inl e
      | Inr transaction \<Rightarrow>
          (case indexTransaction BitcoinIndexer d (in_block block transaction) of
             Inl (e, d1) \<Rightarrow> Inl e
           | Inr d1 \<Rightarrow> index_block_txs BitcoinIndexer r block d1 (i + 1) rest))"
| "index_block_txs SimpleIndexer r block d i (txid # rest) =
     (case (if blk_height block = 0 \<and> i = 0
            then (case insert_transaction d (basic_transaction block txid) of
                    Inl e \<Rightarrow> Inl (e, d)
                  | Inr d1 \<Rightarrow> Inr d1)
            else (case getTransaction r txid of
                    Inl e \<Rightarrow> Inl (e, d)
                  | Inr transaction \<Rightarrow>
                      indexTransaction SimpleIndexer d (in_block block transaction))) of
        Inr d1 \<Rightarrow> index_block_txs SimpleIndexer r block d1 (i + 1) rest
      | Inl (error, d1) \<Rightarrow>
          (case insert_transaction d1 (basic_transaction block txid) of
             Inl e \<Rightarrow> Inl e
           | Inr d2 \<Rightarrow> index_block_txs SimpleIndexer r block d2 (i + 1) rest))"

definition indexBlock :: "indexer \<Rightarrow> rpc \<Rightarrow> lite_db \<Rightarrow> rpc_block \<Rightarrow> err + lite_db" where
  "indexBlock cls r d block =
     (case insert_block d block of
        Inl e \<Rightarrow> Inl e
      | Inr d1 \<Rightarrow> index_block_txs cls r block d1 0 (blk_tx block))"

text \<open>
  The connection: what is committed and what the open transaction has written so far.
  \<open>beginTransaction\<close> opens on the committed state, \<open>commit\<close> publishes the writes,
  \<open>rollback\<close> drops them.
\<close>

record conn =
  committed :: lite_db
  working :: lite_db

definition beginTransaction :: "conn \<Rightarrow> conn" where
  "beginTransaction c = c\<lparr>working := committed c\<rparr>"

definition commit :: "conn \<Rightarrow> conn" where
  "commit c = c\<lparr>committed := working c\<rparr>"

definition rollback :: "conn \<Rightarrow> conn" where
  "rollback c = c\<lparr>working := committed c\<rparr>"

text \<open>The inner loop of \<open>syncBlocks\<close>, over the heights of one batch.\<close>

function index_range :: "indexer \<Rightarrow> rpc \<Rightarrow> lite_db \<Rightarrow> int \<Rightarrow> int \<Rightarrow> err + lite_db" where
  "index_range cls r d blockHeight endHeight =
     (if blockHeight \<le> endHeight
      then (case getBlockByHeight_rpc r blockHeight of
              Inl e \<Rightarrow> Inl e
            | Inr block \<Rightarrow>
                (case indexBlock cls r d block of
                   Inl e \<Rightarrow> Inl e
                 | Inr d1 \<Rightarrow> index_range cls r d1 (blockHeight + 1) endHeight))
      else Inr d)"
  by pat_completeness auto
termination
  by (relation "measure (\<lambda>(cls, r, d, blockHeight, endHeight). nat (endHeight + 1 - blockHeight))") auto

text \<open>
  \<open>syncBlocks\<close>, the same text in both classes. With a batch size below 1 the outer
  loop does not advance, so the function is partial: \<open>None\<close> is a run that never
  returns.
\<close>

partial_function (option) syncBlocks :: "indexer \<Rightarrow> rpc \<Rightarrow> int \<Rightarrow> conn \<Rightarrow> int \<Rightarrow> int \<Rightarrow> (err option \<times> conn) option" where
  "syncBlocks cls r batchSize c height toHeight =
     (if height \<le> toHeight
      then (let endHeight = min (height + batchSize - 1) toHeight;
                c1 = beginTransaction c
            in case index_range cls r (working c1) height endHeight of
                 Inr d \<Rightarrow> syncBlocks cls r batchSize (commit (c1\<lparr>working := d\<rparr>))
                           (height + batchSize) toHeight
               | Inl error \<Rightarrow> Some (Some error, rollback c1))
      else Some (None, c))"
section \<open>Notions used in the statements\<close>

text \<open>The \<open>Address\<close> row the balance update starts from: the stored one, or a fresh one.\<close>

definition current_address :: "db \<Rightarrow> string \<Rightarrow> address_row" where
  "current_address s a =
     (case addresses s a of
        Some row \<Rightarrow> row
      | None \<Rightarrow> \<lparr>balance = 0, total_received = 0, total_sent = 0,
                  transaction_count = 0, utxo_count = 0\<rparr>)"

definition lite_balance :: "lite_db \<Rightarrow> string \<Rightarrow> int" where
  "lite_balance d a =
     (case find (\<lambda>row. la_address row = a) (l_addresses d) of
        Some row \<Rightarrow> la_balance row
      | None \<Rightarrow> 0)"

definition lite_total_sent :: "lite_db \<Rightarrow> string \<Rightarrow> int" where
  "lite_total_sent d a =
     (case find (\<lambda>row. la_address row = a) (l_addresses d) of
        Some row \<Rightarrow> la_total_sent row
      | None \<Rightarrow> 0)"

definition no_failure :: "string \<Rightarrow> bool" where
  "no_failure a = False"

definition every_update_fails :: "string \<Rightarrow> bool" where
  "every_update_fails a = True"

text \<open>A node whose block 1 holds one transaction that spends an output nobody stored.\<close>

definition orphan_input :: rpc_input where
  "orphan_input = \<lparr>in_txid = Some ''missing'', in_vout = Some 0, in_n = None, in_coinbase = None\<rparr>"

definition orphan_tx :: rpc_tx where
  "orphan_tx = \<lparr>tx_txid = ''t1'', tx_vin = [orphan_input], tx_vout = [],
     tx_blockhash = None, tx_blockheight = None, tx_blocktime = None,
     tx_confirmations = None, tx_fee = None\<rparr>"

definition orphan_block :: rpc_block where
  "orphan_block = \<lparr>blk_hash = ''b1'', blk_height = 1, blk_time = 0, blk_tx = [''t1''],
     blk_confirmations = 1\<rparr>"

definition orphan_getBlockHash :: "int \<Rightarrow> err + string" where
  "orphan_getBlockHash h = (if h = 1 then Inr ''b1'' else Inl (RpcError (- 8)))"

definition orphan_getBlock :: "string \<Rightarrow> err + rpc_block" where
  "orphan_getBlock h = (if h = ''b1'' then Inr orphan_block else Inl (RpcError (- 5)))"

definition orphan_getTransaction :: "string \<Rightarrow> err + rpc_tx" where
  "orphan_getTransaction t = (if t = ''t1'' then Inr orphan_tx else Inl (RpcError (- 5)))"

definition orphan_node :: rpc where
  "orphan_node = \<lparr>getBlockHash = orphan_getBlockHash, getBlock = orphan_getBlock,
     getTransaction = orphan_getTransaction\<rparr>"







text \<open>The columns of a UTXO row and of an output row that spending leaves alone.\<close>

definition utxo_core :: "utxo_row \<Rightarrow> string \<times> nat \<times> string \<times> int \<times> string \<times> int \<times> int" where
  "utxo_core u = (u_transaction_id u, u_output_index u, u_address u, u_value u,
     u_script_pub_key u, u_block_height u, u_block_time u)"

definition output_core :: "lite_output \<Rightarrow> string \<times> nat \<times> int \<times> string \<times> string option" where
  "output_core out = (lo_txid out, lo_vout out, lo_value out, lo_script_pub_key out, lo_address out)"

text \<open>
  The default of the \<open>reorgProtectionBlocks\<close> setting, and the confirmations of a
  block at height \<open>h\<close> when the tip is at height \<open>tip\<close>.
\<close>

definition reorgProtectionBlocks :: int where
  "reorgProtectionBlocks = 6"

definition confirmations_at :: "int \<Rightarrow> int \<Rightarrow> int" where
  "confirmations_at tip h = tip - h + 1"

text \<open>
  What the loops of \<open>indexTransaction\<close> add up: for an input, the stored value of the
  output it refers to (0 for a coinbase input and for an output that is not stored);
  for an output, its amount in minor units. \<open>node_fee\<close> is \<open>tx.fee || null\<close>, the
  value the fee column gets when the transaction row is inserted.
\<close>

definition input_value :: "lite_db \<Rightarrow> rpc_input \<Rightarrow> int" where
  "input_value d input =
     (if truthy (in_coinbase input) then 0
      else if truthy (in_txid input) \<and> in_vout input \<noteq> None
      then (case getPreviousOutput d (the (in_txid input)) (the (in_vout input)) of
              None \<Rightarrow> 0
            | Some out \<Rightarrow> lo_value out)
      else 0)"

definition input_total :: "lite_db \<Rightarrow> rpc_tx \<Rightarrow> int" where
  "input_total d tx = sum_list (map (input_value d) (tx_vin tx))"

definition output_total :: "rpc_tx \<Rightarrow> int" where
  "output_total tx = sum_list (map (\<lambda>out. Math_round (js_mul (out_value out) coin)) (tx_vout tx))"

definition node_fee :: "rpc_tx \<Rightarrow> rat option" where
  "node_fee tx =
     (case tx_fee tx of
        Some f \<Rightarrow> if dbl_val f = 0 then None else Some (dbl_val f)
      | None \<Rightarrow> None)"

definition stored_fee :: "lite_db \<Rightarrow> string \<Rightarrow> rat option option" where
  "stored_fee d txid = map_option lt_fee (find (\<lambda>t. lt_txid t = txid) (l_transactions d))"

text \<open>The key and the value of an output row.\<close>

definition kv :: "lite_output \<Rightarrow> string \<times> nat \<times> int" where
  "kv out = (lo_txid out, lo_vout out, lo_value out)"

text \<open>
  A node whose block 1 holds a single coinbase transaction paying 50 coins to the
  address A; the store after that block has been indexed once by \<open>BitcoinIndexer\<close>,
  and the address table after it has been indexed a second time.
\<close>

definition coinbase_tx :: rpc_tx where
  "coinbase_tx = \<lparr>tx_txid = ''cb'',
     tx_vin = [\<lparr>in_txid = None, in_vout = None, in_n = None, in_coinbase = Some ''01''\<rparr>],
     tx_vout = [\<lparr>out_value = Dbl 50 0, out_n = 0, out_hex = ''51'',
                 out_address = Some ''A'', out_addresses = None\<rparr>],
     tx_blockhash = None, tx_blockheight = None, tx_blocktime = None,
     tx_confirmations = None, tx_fee = None\<rparr>"

definition coinbase_block :: rpc_block where
  "coinbase_block = \<lparr>blk_hash = ''b1'', blk_height = 1, blk_time = 0, blk_tx = [''cb''],
     blk_confirmations = 1\<rparr>"

definition coinbase_getBlockHash :: "int \<Rightarrow> err + string" where
  "coinbase_getBlockHash h = (if h = 1 then Inr ''b1'' else Inl (RpcError (- 8)))"

definition coinbase_getBlock :: "string \<Rightarrow> err + rpc_block" where
  "coinbase_getBlock h = (if h = ''b1'' then Inr coinbase_block else Inl (RpcError (- 5)))"

definition coinbase_getTransaction :: "string \<Rightarrow> err + rpc_tx" where
  "coinbase_getTransaction t = (if t = ''cb'' then Inr coinbase_tx else Inl (RpcError (- 5)))"

definition coinbase_node :: rpc where
  "coinbase_node = \<lparr>getBlockHash = coinbase_getBlockHash, getBlock = coinbase_getBlock,
     getTransaction = coinbase_getTransaction\<rparr>"

definition once_db :: lite_db where
  "once_db =
     \<lparr>l_blocks = [\<lparr>lb_hash = ''b1'', lb_height = 1, lb_tx_count = 1, lb_confirmations = 1\<rparr>],
      l_transactions = [\<lparr>lt_txid = ''cb'', lt_block_hash = Some ''b1'', lt_block_height = Some 1,
                          lt_confirmations = 1, lt_fee = None\<rparr>],
      l_inputs = [\<lparr>li_txid = ''cb'', li_vout = 0, li_prev_txid = None, li_prev_vout = None,
                    li_prev_value = None, li_prev_address = None\<rparr>],
      l_outputs = [\<lparr>lo_txid = ''cb'', lo_vout = 0, lo_value = 5000000000,
                     lo_script_pub_key = ''51'', lo_address = Some ''A'', lo_spent_txid = None,
                     lo_spent_vout = None, lo_is_spent = False\<rparr>],
      l_addresses = [\<lparr>la_address = ''A'', la_received_count = 1, la_sent_count = 0,
                       la_balance = 5000000000, la_total_received = 5000000000,
                       la_total_sent = 0, la_first_seen_block = Some 1,
                       la_last_seen_block = Some 1\<rparr>],
      l_utxos = []\<rparr>"

definition twice_addresses :: "lite_address list" where
  "twice_addresses =
     [\<lparr>la_address = ''A'', la_received_count = 2, la_sent_count = 0,
       la_balance = 10000000000, la_total_received = 10000000000,
       la_total_sent = 0, la_first_seen_block = Some 1, la_last_seen_block = Some 1\<rparr>]"

definition idle :: "lite_db \<Rightarrow> conn" where
  "idle d = \<lparr>committed = d, working = d\<rparr>"




definition utxo_keys :: "db \<Rightarrow> (string \<times> nat) list" where
  "utxo_keys s = map (\<lambda>u. (u_transaction_id u, u_output_index u)) (utxos s)"




definition stats_or_zero :: "address_stats option \<Rightarrow> address_stats" where
  "stats_or_zero x =
     (case x of
        Some c \<Rightarrow> c
      | None \<Rightarrow> \<lparr>st_balance = 0, st_totalReceived = 0, st_totalSent = 0,
                  st_utxoCount = 0, st_txCount = 0\<rparr>)"

definition value_of :: "string \<Rightarrow> utxo_row list \<Rightarrow> int" where
  "value_of a us = sum_list (map u_value (filter (\<lambda>u. u_address u = a) us))"




text \<open>The first height of the batch that holds height \<open>f\<close>, for batches of \<open>b\<close> heights
  counted from \<open>start\<close>.\<close>

definition batch_start :: "int \<Rightarrow> int \<Rightarrow> int \<Rightarrow> int" where
  "batch_start b start f = start + ((f - start) div b) * b"


text \<open>A store that holds block b1 and the row of its transaction t1, in each of the
  two stores.\<close>

definition one_tx_db :: db where
  "one_tx_db =
     \<lparr>blocks = [\<lparr>b_hash = ''b1'', b_height = 1\<rparr>],
      transactions = [\<lparr>t_txid = ''t1'', t_block_hash = None, t_block_height = Some 1,
                        t_is_coinbase = False, t_total_input_value = 0,
                        t_total_output_value = 0, t_fee = 0\<rparr>],
      inputs = [], outputs = [], addresses = Map.empty, utxos = [],
      last_processed_height = None\<rparr>"

definition one_tx_lite_db :: lite_db where
  "one_tx_lite_db =
     \<lparr>l_blocks = [\<lparr>lb_hash = ''b1'', lb_height = 1, lb_tx_count = 1, lb_confirmations = 1\<rparr>],
      l_transactions = [\<lparr>lt_txid = ''t1'', lt_block_hash = Some ''b1'', lt_block_height = Some 1,
                          lt_confirmations = 1, lt_fee = None\<rparr>],
      l_inputs = [], l_outputs = [], l_addresses = [], l_utxos = []\<rparr>"



text \<open>
  A node with two blocks. Block 1 holds the coinbase transaction cb, which pays 50
  coins to the address A, and the transaction t1, which spends that output and pays 50
  coins to A. Block 2 holds the transaction t2, which spends the output of t1 and pays
  50.00000001 coins to A. With the tip at height 2, block 1 has two confirmations.
\<close>

definition respend_tx :: rpc_tx where
  "respend_tx = \<lparr>tx_txid = ''t1'',
     tx_vin = [\<lparr>in_txid = Some ''cb'', in_vout = Some 0, in_n = None, in_coinbase = None\<rparr>],
     tx_vout = [\<lparr>out_value = Dbl 50 0, out_n = 0, out_hex = ''51'',
                 out_address = Some ''A'', out_addresses = None\<rparr>],
     tx_blockhash = None, tx_blockheight = None, tx_blocktime = None,
     tx_confirmations = None, tx_fee = None\<rparr>"

definition overspend_tx :: rpc_tx where
  "overspend_tx = \<lparr>tx_txid = ''t2'',
     tx_vin = [\<lparr>in_txid = Some ''t1'', in_vout = Some 0, in_n = None, in_coinbase = None\<rparr>],
     tx_vout = [\<lparr>out_value = js_number 5000000001 100000000, out_n = 0, out_hex = ''51'',
                 out_address = Some ''A'', out_addresses = None\<rparr>],
     tx_blockhash = None, tx_blockheight = None, tx_blocktime = None,
     tx_confirmations = None, tx_fee = None\<rparr>"

definition pay_block :: rpc_block where
  "pay_block = \<lparr>blk_hash = ''b1'', blk_height = 1, blk_time = 0, blk_tx = [''cb'', ''t1''],
     blk_confirmations = 2\<rparr>"

definition spend_block :: rpc_block where
  "spend_block = \<lparr>blk_hash = ''b2'', blk_height = 2, blk_time = 0, blk_tx = [''t2''],
     blk_confirmations = 1\<rparr>"

definition spend_getBlockHash :: "int \<Rightarrow> err + string" where
  "spend_getBlockHash h =
     (if h = 1 then Inr ''b1'' else if h = 2 then Inr ''b2'' else Inl (RpcError (- 8)))"

definition spend_getBlock :: "string \<Rightarrow> err + rpc_block" where
  "spend_getBlock h =
     (if h = ''b1'' then Inr pay_block
      else if h = ''b2'' then Inr spend_block
      else Inl (RpcError (- 5)))"

definition spend_getTransaction :: "string \<Rightarrow> err + rpc_tx" where
  "spend_getTransaction t =
     (if t = ''cb'' then Inr coinbase_tx
      else if t = ''t1'' then Inr respend_tx
      else if t = ''t2'' then Inr overspend_tx
      else Inl (RpcError (- 5)))"

definition spend_node :: rpc where
  "spend_node = \<lparr>getBlockHash = spend_getBlockHash, getBlock = spend_getBlock,
     getTransaction = spend_getTransaction\<rparr>"

text \<open>
  The store after \<open>BitcoinIndexer\<close> has indexed block 1 of that node, starting from the
  empty store, and after it has indexed block 2 as well.
\<close>

definition paid_db :: lite_db where
  "paid_db =
     \<lparr>l_blocks = [\<lparr>lb_hash = ''b1'', lb_height = 1, lb_tx_count = 2, lb_confirmations = 2\<rparr>],
      l_transactions =
        [\<lparr>lt_txid = ''cb'', lt_block_hash = Some ''b1'', lt_block_height = Some 1,
          lt_confirmations = 2, lt_fee = None\<rparr>,
         \<lparr>lt_txid = ''t1'', lt_block_hash = Some ''b1'', lt_block_height = Some 1,
          lt_confirmations = 2, lt_fee = Some 0\<rparr>],
      l_inputs =
        [\<lparr>li_txid = ''cb'', li_vout = 0, li_prev_txid = None, li_prev_vout = None,
          li_prev_value = None, li_prev_address = None\<rparr>,
         \<lparr>li_txid = ''t1'', li_vout = 0, li_prev_txid = Some ''cb'', li_prev_vout = Some 0,
          li_prev_value = Some 5000000000, li_prev_address = Some ''A''\<rparr>],
      l_outputs =
        [\<lparr>lo_txid = ''cb'', lo_vout = 0, lo_value = 5000000000, lo_script_pub_key = ''51'',
          lo_address = Some ''A'', lo_spent_txid = Some ''t1'', lo_spent_vout = Some 0,
          lo_is_spent = True\<rparr>,
         \<lparr>lo_txid = ''t1'', lo_vout = 0, lo_value = 5000000000, lo_script_pub_key = ''51'',
          lo_address = Some ''A'', lo_spent_txid = None, lo_spent_vout = None,
          lo_is_spent = False\<rparr>],
      l_addresses =
        [\<lparr>la_address = ''A'', la_received_count = 2, la_sent_count = 0,
          la_balance = 10000000000, la_total_received = 10000000000, la_total_sent = 0,
          la_first_seen_block = Some 1, la_last_seen_block = Some 1\<rparr>],
      l_utxos =
        [\<lparr>lu_txid = ''t1'', lu_vout = 0, lu_address = ''A'', lu_value = 5000000000,
          lu_script_pub_key = ''51'', lu_block_height = 1, lu_is_coinbase = False\<rparr>]\<rparr>"

definition respent_db :: lite_db where
  "respent_db =
     \<lparr>l_blocks = [\<lparr>lb_hash = ''b1'', lb_height = 1, lb_tx_count = 2, lb_confirmations = 2\<rparr>,
                   \<lparr>lb_hash = ''b2'', lb_height = 2, lb_tx_count = 1, lb_confirmations = 1\<rparr>],
      l_transactions =
        [\<lparr>lt_txid = ''cb'', lt_block_hash = Some ''b1'', lt_block_height = Some 1,
          lt_confirmations = 2, lt_fee = None\<rparr>,
         \<lparr>lt_txid = ''t1'', lt_block_hash = Some ''b1'', lt_block_height = Some 1,
          lt_confirmations = 2, lt_fee = Some 0\<rparr>,
         \<lparr>lt_txid = ''t2'', lt_block_hash = Some ''b2'', lt_block_height = Some 2,
          lt_confirmations = 1, lt_fee = Some (- 1)\<rparr>],
      l_inputs =
        [\<lparr>li_txid = ''cb'', li_vout = 0, li_prev_txid = None, li_prev_vout = None,
          li_prev_value = None, li_prev_address = None\<rparr>,
         \<lparr>li_txid = ''t1'', li_vout = 0, li_prev_txid = Some ''cb'', li_prev_vout = Some 0,
          li_prev_value = Some 5000000000, li_prev_address = Some ''A''\<rparr>,
         \<lparr>li_txid = ''t2'', li_vout = 0, li_prev_txid = Some ''t1'', li_prev_vout = Some 0,
          li_prev_value = Some 5000000000, li_prev_address = Some ''A''\<rparr>],
      l_outputs =
        [\<lparr>lo_txid = ''cb'', lo_vout = 0, lo_value = 5000000000, lo_script_pub_key = ''51'',
          lo_address = Some ''A'', lo_spent_txid = Some ''t1'', lo_spent_vout = Some 0,
          lo_is_spent = True\<rparr>,
         \<lparr>lo_txid = ''t1'', lo_vout = 0, lo_value = 5000000000, lo_script_pub_key = ''51'',
          lo_address = Some ''A'', lo_spent_txid = Some ''t2'', lo_spent_vout = Some 0,
          lo_is_spent = True\<rparr>,
         \<lparr>lo_txid = ''t2'', lo_vout = 0, lo_value = 5000000001, lo_script_pub_key = ''51'',
          lo_address = Some ''A'', lo_spent_txid = None, lo_spent_vout = None,
          lo_is_spent = False\<rparr>],
      l_addresses =
        [\<lparr>la_address = ''A'', la_received_count = 3, la_sent_count = 0,
          la_balance = 15000000001, la_total_received = 15000000001, la_total_sent = 0,
          la_first_seen_block = Some 1, la_last_seen_block = Some 2\<rparr>],
      l_utxos =
        [\<lparr>lu_txid = ''t2'', lu_vout = 0, lu_address = ''A'', lu_value = 5000000001,
          lu_script_pub_key = ''51'', lu_block_height = 2, lu_is_coinbase = False\<rparr>]\<rparr>"
section \<open>Auxiliary facts\<close>

declare bits.simps [simp del]
declare TypeORM_syncBlocks.simps [simp del]
declare index_range.simps [simp del]

lemma fifty_coins: "Math_round (js_mul (Dbl 50 0) coin) = 5000000000"
  by (simp add: bits.simps js_mul_def coin_def round53_def Math_round_def)

lemma updateAddressBalance_accepted:
  "updateAddressBalance False s a v r =
     Inr (s\<lparr>addresses := (addresses s)(a \<mapsto>
        (if r then (current_address s a)\<lparr>balance := balance (current_address s a) + v,
                      total_received := total_received (current_address s a) + v,
                      transaction_count := transaction_count (current_address s a) + 1\<rparr>
         else (current_address s a)\<lparr>balance := balance (current_address s a) - v,
                      total_sent := total_sent (current_address s a) + v,
                      transaction_count := transaction_count (current_address s a) + 1\<rparr>))\<rparr>)"
  by (simp add: updateAddressBalance_def updateAddressBalance_transaction_def Let_def
      current_address_def)

lemma updateAddressBalance_rejected:
  "updateAddressBalance True s a v r = Inr s"
  by (simp add: updateAddressBalance_def updateAddressBalance_transaction_def Let_def)

lemma find_map_update:
  "find (\<lambda>row. la_address row = a)
        (map (\<lambda>row. if la_address row = a then f row else row) rows) =
   map_option f (find (\<lambda>row. la_address row = a) rows)"
  if "\<And>row. la_address (f row) = la_address row"
  using that by (induction rows) auto

lemma find_app:
  "find P (xs @ ys) = (case find P xs of None \<Rightarrow> find P ys | Some x \<Rightarrow> Some x)"
  by (induction xs) auto

lemma find_insert_or_ignore:
  "find (\<lambda>row. la_address row = a)
        (insert_or_ignore (\<lambda>row. la_address row = a) new rows) =
   (case find (\<lambda>row. la_address row = a) rows of
      Some row \<Rightarrow> Some row
    | None \<Rightarrow> if la_address new = a then Some new else None)"
proof (cases "\<exists>row\<in>set rows. la_address row = a")
  case True
  then have "find (\<lambda>row. la_address row = a) rows \<noteq> None"
    by (auto simp: find_None_iff)
  with True show ?thesis
    by (auto simp: insert_or_ignore_def list_ex_iff)
next
  case False
  then have "find (\<lambda>row. la_address row = a) rows = None"
    by (auto simp: find_None_iff)
  with False show ?thesis
    by (simp add: insert_or_ignore_def list_ex_iff find_app)
qed



lemma varchar_null_short:
  "varchar_null n None = Some None"
  "length s \<le> n \<Longrightarrow> varchar_null n (Some s) = Some (Some s)"
  by (simp_all add: varchar_null_def varchar_def)




lemma saveTransactionInput_frame:
  assumes "saveTransactionInput s i t = Inr s1"
  shows "utxos s1 = utxos s" "addresses s1 = addresses s" "blocks s1 = blocks s"
    "transactions s1 = transactions s" "outputs s1 = outputs s"
  using assms
  by (auto simp: saveTransactionInput_def Let_def split: option.splits if_splits)


lemma setLastProcessedHeight_frame [simp]:
  "utxos (setLastProcessedHeight s h) = utxos s"
  "addresses (setLastProcessedHeight s h) = addresses s"
  "blocks (setLastProcessedHeight s h) = blocks s"
  "inputs (setLastProcessedHeight s h) = inputs s"
  "last_processed_height (setLastProcessedHeight s h) = Some h"
  "getUTXOsByAddress (setLastProcessedHeight s h) a = getUTXOsByAddress s a"
  by (simp_all add: setLastProcessedHeight_def getUTXOsByAddress_def)

lemma TypeORM_syncBlocks_block:
  assumes "getBlockByHeight s h = None" "getBlockHash r h = Inr bh" "getBlock r bh = Inr bd"
    and "saveBlock s bd = Inr s1"
    and "process_block_txs r fails s1 (blk_tx bd) h (blk_time bd) = Inr s2"
  shows "TypeORM_syncBlocks r fails s h h = (None, setLastProcessedHeight s2 h)"
  using assms
  by (simp add: TypeORM_syncBlocks.simps [of r fails s h h]
      TypeORM_syncBlocks.simps [of r fails "setLastProcessedHeight s2 h" "h + 1" h])

lemmas sqlite_defs = indexBlock_def insert_block_def in_block_def indexTransaction_def
  insert_transaction_def insert_input_def insert_output_def insert_or_replace_def
  insert_or_ignore_def updateAddressInfo_def addUTXO_def markOutputAsSpent_def
  getPreviousOutput_def extractAddress_def is_coinbase_tx_def has_block_def
  has_transaction_def has_address_def basic_transaction_def truthy_def Let_def


lemma map_map_if:
  "map f (map (\<lambda>x. if P x then g x else x) xs) = map f xs" if "\<And>x. f (g x) = f x"
  using that by (induction xs) auto

lemma filter_map_if:
  "filter (\<lambda>x. \<not> P x) (map (\<lambda>x. if P x then g x else x) xs) = filter (\<lambda>x. \<not> P x) xs"
  if "\<And>x. P (g x) = P x"
  using that by (induction xs) auto

lemma filter_map_if_hit:
  "filter P (map (\<lambda>x. if P x then g x else x) xs) = map g (filter P xs)"
  if "\<And>x. P (g x) = P x"
  using that by (induction xs) auto

lemma find_insert_or_replace:
  "P row \<Longrightarrow> find P (insert_or_replace P row rows) = Some row"
  by (induction rows) (auto simp: insert_or_replace_def)

lemma find_map_if:
  "find P (map (\<lambda>x. if P x then g x else x) xs) = map_option g (find P xs)"
  if "\<And>x. P (g x) = P x"
  using that by (induction xs) auto

section \<open>Error handling of the balance update\<close>

text \<open>
  C10. \<open>DatabaseService.updateAddressBalance\<close> never hands an error to its caller:
  whatever the store does with the inner transaction, the call returns normally. When
  the inner transaction fails, the store is left as it was, and the caller's next step
  still runs: the credit of an output saves the UTXO row although the balance of its
  address was not updated.
\<close>

theorem updateAddressBalance_swallows_failure:
  "(\<exists>s'. updateAddressBalance fails s addressStr balanceChange isReceived = Inr s') \<and>
   (updateAddressBalance_transaction fails s addressStr balanceChange isReceived = Inl e \<longrightarrow>
      updateAddressBalance fails s addressStr balanceChange isReceived = Inr s) \<and>
   (fails' address \<longrightarrow>
      credit_output fails' s output address txid blockHeight blockTime =
        Inr (saveUTXO s txid (out_n output) address
               (Math_round (js_mul (out_value output) coin)) (out_hex output)
               blockHeight blockTime))"
proof -
  have 1: "\<exists>s'. updateAddressBalance fails s addressStr balanceChange isReceived = Inr s'"
    by (simp add: updateAddressBalance_def split: sum.splits)
  have 2: "updateAddressBalance_transaction fails s addressStr balanceChange isReceived = Inl e \<longrightarrow>
      updateAddressBalance fails s addressStr balanceChange isReceived = Inr s"
    by (simp add: updateAddressBalance_def)
  have 3: "fails' address \<longrightarrow>
      credit_output fails' s output address txid blockHeight blockTime =
        Inr (saveUTXO s txid (out_n output) address
               (Math_round (js_mul (out_value output) coin)) (out_hex output)
               blockHeight blockTime)"
    by (simp add: credit_output_def updateAddressBalance_rejected Let_def)
  from 1 2 3 show ?thesis by blast
qed

theorem updateAddressBalance_swallows_failure_witness:
  "updateAddressBalance True empty_db ''A'' 7 True = Inr empty_db \<and>
   updateAddressBalance_transaction True empty_db ''A'' 7 True = Inl DbError \<and>
   every_update_fails ''A'' \<and>
   credit_output every_update_fails empty_db
       \<lparr>out_value = Dbl 50 0, out_n = 0, out_hex = ''51'', out_address = Some ''A'',
        out_addresses = None\<rparr> ''A'' ''t'' 1 0 =
     Inr (empty_db\<lparr>utxos :=
       [\<lparr>u_transaction_id = ''t'', u_output_index = 0, u_address = ''A'',
         u_value = 5000000000, u_script_pub_key = ''51'', u_block_height = 1,
         u_block_time = 0, u_is_spent = False, u_spent_by_txid = None,
         u_spent_by_input_index = None, u_spent_at_height = None\<rparr>]\<rparr>)"
proof -
  have t: "updateAddressBalance_transaction True empty_db ''A'' 7 True = Inl DbError"
    by (simp add: updateAddressBalance_transaction_def Let_def)
  have f: "every_update_fails ''A''"
    by (simp add: every_update_fails_def)
  have v: "Math_round (js_mul (Dbl 50 0) coin) = 5000000000"
    by (rule fifty_coins)
  have u: "saveUTXO empty_db ''t'' 0 ''A'' 5000000000 ''51'' 1 0 = empty_db\<lparr>utxos :=
       [\<lparr>u_transaction_id = ''t'', u_output_index = 0, u_address = ''A'',
         u_value = 5000000000, u_script_pub_key = ''51'', u_block_height = 1,
         u_block_time = 0, u_is_spent = False, u_spent_by_txid = None,
         u_spent_by_input_index = None, u_spent_at_height = None\<rparr>]\<rparr>"
    by (simp add: saveUTXO_def empty_db_def)
  from updateAddressBalance_swallows_failure
         [of True empty_db "''A''" 7 True DbError every_update_fails "''A''"
             "\<lparr>out_value = Dbl 50 0, out_n = 0, out_hex = ''51'', out_address = Some ''A'',
               out_addresses = None\<rparr>" "''t''" 1 0]
  show ?thesis
    using t f v u by simp
qed

section \<open>Debits\<close>

text \<open>
  C6, as the code has it. A debit is applied whatever the tracked balance is: no
  comparison with the balance is made and no error is raised. In
  \<open>DatabaseService.updateAddressBalance\<close>, when the store accepts the update, the
  balance becomes the old balance (0 for an address not yet stored) minus the amount
  and \<open>total_sent\<close> grows by the amount; \<open>updateAddressInfo\<close> of the SQLite indexers
  does the same on its row. A debit above the balance leaves a negative balance.
\<close>

theorem debit_is_unchecked:
  "(\<exists>s'. updateAddressBalance False s a v False = Inr s' \<and>
         map_option balance (addresses s' a) = Some (balance (current_address s a) - v) \<and>
         map_option total_sent (addresses s' a) = Some (total_sent (current_address s a) + v)) \<and>
   lite_balance (updateAddressInfo d a v False h) a = lite_balance d a - v \<and>
   lite_total_sent (updateAddressInfo d a v False h) a = lite_total_sent d a + v"
proof -
  have 1: "\<exists>s'. updateAddressBalance False s a v False = Inr s' \<and>
         map_option balance (addresses s' a) = Some (balance (current_address s a) - v) \<and>
         map_option total_sent (addresses s' a) = Some (total_sent (current_address s a) + v)"
    by (simp add: updateAddressBalance_accepted)
  have 2: "lite_balance (updateAddressInfo d a v False h) a = lite_balance d a - v"
    by (simp add: lite_balance_def updateAddressInfo_def Let_def find_map_update
        find_insert_or_ignore split: option.splits)
  have 3: "lite_total_sent (updateAddressInfo d a v False h) a = lite_total_sent d a + v"
    by (simp add: lite_total_sent_def updateAddressInfo_def Let_def find_map_update
        find_insert_or_ignore split: option.splits)
  from 1 2 3 show ?thesis by blast
qed

theorem debit_is_unchecked_witness:
  "lite_balance (updateAddressInfo empty_lite_db ''A'' 5 False (Some 1)) ''A'' = - 5 \<and>
   lite_total_sent (updateAddressInfo empty_lite_db ''A'' 5 False (Some 1)) ''A'' = 5"
  using debit_is_unchecked [of empty_db "''A''" 5 empty_lite_db "Some 1"]
  by (simp add: lite_balance_def lite_total_sent_def empty_lite_db_def)

text \<open>
  A debit of 5 on an address that holds nothing is applied: no error, and the stored
  balance is -5.
\<close>

theorem debit_over_balance_counterexample:
  "updateAddressBalance False empty_db ''A'' 5 False =
     Inr (empty_db\<lparr>addresses :=
       [''A'' \<mapsto> \<lparr>balance = - 5, total_received = 0, total_sent = 5,
                  transaction_count = 1, utxo_count = 0\<rparr>]\<rparr>)"
  by (simp add: updateAddressBalance_accepted current_address_def empty_db_def)

section \<open>Inputs whose previous output is not in the store\<close>

lemma markOutputAsSpent_absent:
  assumes "getPreviousOutput d t v = None" and "insert_input d row = Inr d1"
  shows "l_outputs (markOutputAsSpent d1 t v st sv) = l_outputs d"
proof -
  from assms(1) have "\<forall>out\<in>set (l_outputs d). \<not> (lo_txid out = t \<and> lo_vout out = v)"
    by (auto simp: getPreviousOutput_def find_None_iff)
  then have "map (\<lambda>out. if lo_txid out = t \<and> lo_vout out = v
                           then out\<lparr>lo_is_spent := True, lo_spent_txid := Some st,
                                    lo_spent_vout := Some sv\<rparr>
                           else out) (l_outputs d) = l_outputs d"
    by (intro map_idI) auto
  moreover from assms(2) have "l_outputs d1 = l_outputs d"
    by (auto simp: insert_input_def split: if_splits)
  ultimately show ?thesis
    by (simp add: markOutputAsSpent_def Let_def)
qed

lemma process_block_txs_returns:
  "height \<noteq> 0 \<Longrightarrow> \<exists>s'. process_block_txs r fails s txs height blockTime = Inr s'"
  by (induction txs arbitrary: s) (auto split: sum.splits)

text \<open>
  C3, as the code has it. An input whose referenced output is absent from the store is
  passed over without an error. In \<open>TypeORMIndexerAdapter\<close>, \<open>processInputSpending\<close>
  returns the store as it was (nothing is marked spent and no address is debited), and
  the input loop of \<open>processTransaction\<close>, once the input row is saved, goes on with
  the remaining inputs on that store. Whatever its transactions do, a block at a
  height other than 0 whose row the store accepts is processed to the end: the sync
  returns without an error and records the height. In \<open>indexTransaction\<close> of the
  SQLite indexers, once the input row is written (with no previous value and no
  previous address), \<open>totalInput\<close> stays as it was, the output and address tables are
  untouched, and the loop goes on with the next input.
\<close>

theorem unresolved_input_is_skipped:
  "(in_txid input = Some t \<and> in_vout input = Some v \<and> getUTXOByTxidAndIndex s t v = None \<longrightarrow>
      processInputSpending fails s input spendingTxid blockHeight = Inr s) \<and>
   (in_txid input = Some t \<and> in_vout input = Some v \<and> getUTXOByTxidAndIndex s t v = None \<and>
    saveTransactionInput s input txid = Inr saved \<longrightarrow>
      process_inputs fails s (input # others) txid blockHeight =
        process_inputs fails saved others txid blockHeight) \<and>
   (height \<noteq> 0 \<and> getBlockByHeight before height = None \<and> getBlockHash r height = Inr blockHash \<and>
    getBlock r blockHash = Inr blockData \<and> saveBlock before blockData = Inr held \<longrightarrow>
      (\<exists>s'. TypeORM_syncBlocks r fails before height height = (None, s') \<and>
            last_processed_height s' = Some height)) \<and>
   (\<not> truthy (in_coinbase input) \<and> t \<noteq> [] \<and> in_txid input = Some t \<and> in_vout input = Some v \<and>
    getPreviousOutput d t v = None \<and>
    insert_input d \<lparr>li_txid = tx_txid tx, li_vout = i, li_prev_txid = Some t,
                     li_prev_vout = Some v, li_prev_value = None,
                     li_prev_address = None\<rparr> = Inr written \<longrightarrow>
      index_inputs cls tx d totalInput i (input # rest) =
        index_inputs cls tx (markOutputAsSpent written t v (tx_txid tx) i) totalInput (i + 1) rest \<and>
      l_outputs (markOutputAsSpent written t v (tx_txid tx) i) = l_outputs d \<and>
      l_addresses (markOutputAsSpent written t v (tx_txid tx) i) = l_addresses d)"
proof -
  have 1: "in_txid input = Some t \<and> in_vout input = Some v \<and> getUTXOByTxidAndIndex s t v = None \<longrightarrow>
      processInputSpending fails s input spendingTxid blockHeight = Inr s"
    by (simp add: processInputSpending_def)
  have 2: "process_inputs fails s (input # others) txid blockHeight =
        process_inputs fails saved others txid blockHeight"
    if "in_txid input = Some t" "in_vout input = Some v" "getUTXOByTxidAndIndex s t v = None"
       "saveTransactionInput s input txid = Inr saved"
  proof -
    from that(3,4) have "getUTXOByTxidAndIndex saved t v = None"
      by (simp add: getUTXOByTxidAndIndex_def saveTransactionInput_frame)
    with that(1,2) have "processInputSpending fails saved input txid blockHeight = Inr saved"
      by (simp add: processInputSpending_def)
    with that(4) show ?thesis
      by simp
  qed
  have 3: "\<exists>s'. TypeORM_syncBlocks r fails before height height = (None, s') \<and>
            last_processed_height s' = Some height"
    if "height \<noteq> 0" "getBlockByHeight before height = None" "getBlockHash r height = Inr blockHash"
       "getBlock r blockHash = Inr blockData" "saveBlock before blockData = Inr held"
  proof -
    from process_block_txs_returns [OF that(1)]
    obtain s3 where "process_block_txs r fails held (blk_tx blockData) height (blk_time blockData) = Inr s3"
      by blast
    with that have "TypeORM_syncBlocks r fails before height height = (None, setLastProcessedHeight s3 height)"
      by (intro TypeORM_syncBlocks_block)
    then show ?thesis
      by simp
  qed
  have 4: "index_inputs cls tx d totalInput i (input # rest) =
        index_inputs cls tx (markOutputAsSpent written t v (tx_txid tx) i) totalInput (i + 1) rest"
    if "\<not> truthy (in_coinbase input)" "t \<noteq> []" "in_txid input = Some t" "in_vout input = Some v"
       "getPreviousOutput d t v = None"
       "insert_input d \<lparr>li_txid = tx_txid tx, li_vout = i, li_prev_txid = Some t,
                     li_prev_vout = Some v, li_prev_value = None,
                     li_prev_address = None\<rparr> = Inr written"
    using that by (simp add: truthy_def Let_def)
  have 5: "l_addresses (markOutputAsSpent written t v st sv) = l_addresses d"
    if "insert_input d row = Inr written" for row st sv
    using that by (auto simp: markOutputAsSpent_def insert_input_def Let_def split: if_splits)
  from 1 2 3 4 5 markOutputAsSpent_absent show ?thesis
    by blast
qed

theorem unresolved_input_is_skipped_witness:
  "processInputSpending no_failure one_tx_db orphan_input ''t1'' 1 = Inr one_tx_db \<and>
   process_inputs no_failure one_tx_db [orphan_input] ''t1'' 1 =
     Inr (one_tx_db\<lparr>inputs :=
       [\<lparr>i_transaction_id = ''t1'', i_input_index = 0,
         i_previous_output_txid = Some ''missing'', i_previous_output_index = Some 0,
         i_coinbase = None\<rparr>]\<rparr>) \<and>
   (\<exists>s'. TypeORM_syncBlocks orphan_node no_failure empty_db 1 1 = (None, s') \<and>
         last_processed_height s' = Some 1) \<and>
   index_inputs SimpleIndexer (in_block orphan_block orphan_tx) one_tx_lite_db 0 0 [orphan_input] =
     Inr (one_tx_lite_db\<lparr>l_inputs :=
            [\<lparr>li_txid = ''t1'', li_vout = 0, li_prev_txid = Some ''missing'',
              li_prev_vout = Some 0, li_prev_value = None, li_prev_address = None\<rparr>]\<rparr>, 0)"
proof -
  define s1 where "s1 = one_tx_db\<lparr>inputs :=
       [\<lparr>i_transaction_id = ''t1'', i_input_index = 0,
         i_previous_output_txid = Some ''missing'', i_previous_output_index = Some 0,
         i_coinbase = None\<rparr>]\<rparr>"
  define d1 where "d1 = one_tx_lite_db\<lparr>l_inputs :=
            [\<lparr>li_txid = ''t1'', li_vout = 0, li_prev_txid = Some ''missing'',
              li_prev_vout = Some 0, li_prev_value = None, li_prev_address = None\<rparr>]\<rparr>"
  have a: "in_txid orphan_input = Some ''missing''" "in_vout orphan_input = Some 0"
    "getUTXOByTxidAndIndex one_tx_db ''missing'' 0 = None"
    "\<not> truthy (in_coinbase orphan_input)" "''missing'' \<noteq> []"
    by (simp_all add: orphan_input_def getUTXOByTxidAndIndex_def one_tx_db_def truthy_def)
  have b: "saveTransactionInput one_tx_db orphan_input ''t1'' = Inr s1"
    by (simp add: saveTransactionInput_def orphan_input_def one_tx_db_def s1_def varchar_def
        varchar_null_def)
  have c: "(1::int) \<noteq> 0" "getBlockByHeight empty_db 1 = None"
    "getBlockHash orphan_node 1 = Inr ''b1''" "getBlock orphan_node ''b1'' = Inr orphan_block"
    "saveBlock empty_db orphan_block = Inr (empty_db\<lparr>blocks := [\<lparr>b_hash = ''b1'', b_height = 1\<rparr>]\<rparr>)"
    by (simp_all add: getBlockByHeight_def empty_db_def orphan_node_def orphan_getBlockHash_def
        orphan_getBlock_def saveBlock_def orphan_block_def varchar_def)
  have e: "getPreviousOutput one_tx_lite_db ''missing'' 0 = None"
    "tx_txid (in_block orphan_block orphan_tx) = ''t1''"
    by (simp_all add: getPreviousOutput_def one_tx_lite_db_def in_block_def orphan_tx_def)
  have f: "insert_input one_tx_lite_db
             \<lparr>li_txid = ''t1'', li_vout = 0, li_prev_txid = Some ''missing'',
              li_prev_vout = Some 0, li_prev_value = None, li_prev_address = None\<rparr> = Inr d1"
    by (simp add: insert_input_def has_transaction_def one_tx_lite_db_def insert_or_replace_def
        d1_def)
  have g: "markOutputAsSpent d1 ''missing'' 0 ''t1'' 0 = d1"
    by (simp add: markOutputAsSpent_def d1_def one_tx_lite_db_def Let_def)
  note inst = unresolved_input_is_skipped [where input = orphan_input and t = "''missing''"
      and v = 0 and s = one_tx_db and fails = no_failure and spendingTxid = "''t1''"
      and blockHeight = 1 and saved = s1 and others = "[]" and txid = "''t1''" and height = 1
      and before = empty_db and r = orphan_node and blockHash = "''b1''" and blockData = orphan_block
      and held = "empty_db\<lparr>blocks := [\<lparr>b_hash = ''b1'', b_height = 1\<rparr>]\<rparr>"
      and d = one_tx_lite_db and tx = "in_block orphan_block orphan_tx" and i = 0 and written = d1
      and cls = SimpleIndexer and totalInput = 0 and rest = "[]"]
  from inst a b c e f show ?thesis
    by (simp add: g s1_def [symmetric] d1_def [symmetric])
qed

text \<open>
  A block whose only transaction spends an output that was never stored is indexed to
  the end: \<open>syncBlocks\<close> reports no error and records height 1 as processed.
\<close>

theorem unresolved_input_counterexample:
  "TypeORM_syncBlocks orphan_node no_failure empty_db 1 1 =
     (None,
      \<lparr>blocks = [\<lparr>b_hash = ''b1'', b_height = 1\<rparr>],
       transactions = [\<lparr>t_txid = ''t1'', t_block_hash = None, t_block_height = Some 1,
                         t_is_coinbase = False, t_total_input_value = 0,
                         t_total_output_value = 0, t_fee = 0\<rparr>],
       inputs = [\<lparr>i_transaction_id = ''t1'', i_input_index = 0,
                   i_previous_output_txid = Some ''missing'', i_previous_output_index = Some 0,
                   i_coinbase = None\<rparr>],
       outputs = [], addresses = Map.empty, utxos = [], last_processed_height = Some 1\<rparr>)"
  by (simp add: TypeORM_syncBlocks.simps orphan_node_def orphan_getBlockHash_def
      orphan_getBlock_def orphan_getTransaction_def orphan_block_def orphan_tx_def
      orphan_input_def empty_db_def getBlockByHeight_def saveBlock_def processTransaction_def
      saveTransaction_def saveTransactionInput_def processInputSpending_def
      getUTXOByTxidAndIndex_def setLastProcessedHeight_def truthy_def varchar_def
      varchar_null_def Let_def)
section \<open>Indexing a block a second time\<close>

text \<open>
  \<open>TypeORMIndexerAdapter.syncBlocks\<close> skips a height whose block is stored: a replay
  changes the cursor only.
\<close>

lemma TypeORM_replay_is_skipped:
  "getBlockByHeight s height = Some existingBlock \<Longrightarrow>
   TypeORM_syncBlocks r fails s height height = (None, setLastProcessedHeight s height)"
  by (simp add: TypeORM_syncBlocks.simps [of r fails s height height]
      TypeORM_syncBlocks.simps [of r fails "setLastProcessedHeight s height" "height + 1" height])

lemma coinbase_indexBlock_first:
  "indexBlock BitcoinIndexer coinbase_node empty_lite_db coinbase_block = Inr once_db"
  by (simp add: sqlite_defs coinbase_block_def coinbase_node_def coinbase_getTransaction_def
      coinbase_tx_def fifty_coins empty_lite_db_def once_db_def)

lemma coinbase_indexBlock_second:
  "indexBlock BitcoinIndexer coinbase_node once_db coinbase_block =
     Inr (once_db\<lparr>l_addresses := twice_addresses\<rparr>)"
  by (simp add: sqlite_defs coinbase_block_def coinbase_node_def coinbase_getTransaction_def
      coinbase_tx_def fifty_coins once_db_def twice_addresses_def)

lemma coinbase_block_1: "getBlockByHeight_rpc coinbase_node 1 = Inr coinbase_block"
  by (simp add: getBlockByHeight_rpc_def coinbase_node_def coinbase_getBlockHash_def
      coinbase_getBlock_def)

text \<open>
  C2 on the SQLite path. \<open>BitcoinIndexer.syncBlocks\<close> over height 1, run on the empty
  store and then again on its own result: the block, transaction, input and output
  rows are replaced by equal ones, but \<open>updateAddressInfo\<close> adds the amount once
  more. After the second run the address A has balance and total received
  10,000,000,000 and a received count of 2, where the first run left 5,000,000,000
  and 1; the claim asks for the values to be unchanged.
\<close>

theorem replay_adds_the_credit_again:
  "syncBlocks BitcoinIndexer coinbase_node 100 (idle empty_lite_db) 1 1 =
     Some (None, idle once_db) \<and>
   syncBlocks BitcoinIndexer coinbase_node 100 (idle once_db) 1 1 =
     Some (None, idle (once_db\<lparr>l_addresses := twice_addresses\<rparr>)) \<and>
   map la_balance (l_addresses once_db) = [5000000000] \<and>
   map la_balance twice_addresses = [10000000000]"
proof -
  have r1: "index_range BitcoinIndexer coinbase_node empty_lite_db 1 1 = Inr once_db"
    by (simp add: index_range.simps [of _ _ _ 1 1] index_range.simps [of _ _ _ 2 1]
        coinbase_block_1 coinbase_indexBlock_first)
  have r2: "index_range BitcoinIndexer coinbase_node once_db 1 1 =
      Inr (once_db\<lparr>l_addresses := twice_addresses\<rparr>)"
    by (simp add: index_range.simps [of _ _ _ 1 1] index_range.simps [of _ _ _ 2 1]
        coinbase_block_1 coinbase_indexBlock_second)
  have s1: "syncBlocks BitcoinIndexer coinbase_node 100 (idle empty_lite_db) 1 1 =
     Some (None, idle once_db)"
    by (simp add: syncBlocks.simps [of _ _ _ _ 1 1] syncBlocks.simps [of _ _ _ _ 101 1]
        idle_def beginTransaction_def commit_def r1)
  have s2: "syncBlocks BitcoinIndexer coinbase_node 100 (idle once_db) 1 1 =
     Some (None, idle (once_db\<lparr>l_addresses := twice_addresses\<rparr>))"
    by (simp add: syncBlocks.simps [of _ _ _ _ 1 1] syncBlocks.simps [of _ _ _ _ 101 1]
        idle_def beginTransaction_def commit_def r2)
  from s1 s2 show ?thesis
    by (simp add: once_db_def twice_addresses_def)
qed


section \<open>Batches and store transactions\<close>

lemma index_range_empty: "to < h \<Longrightarrow> index_range cls r d h to = Inr d"
  by (simp add: index_range.simps [of cls r d h to])

lemma index_range_step:
  "h \<le> to \<Longrightarrow> index_range cls r d h to =
     (case getBlockByHeight_rpc r h of
        Inl e \<Rightarrow> Inl e
      | Inr block \<Rightarrow>
          (case indexBlock cls r d block of
             Inl e \<Rightarrow> Inl e
           | Inr d1 \<Rightarrow> index_range cls r d1 (h + 1) to))"
  by (simp add: index_range.simps [of cls r d h to])

lemma index_range_split:
  "h \<le> m \<Longrightarrow> m \<le> to + 1 \<Longrightarrow>
   index_range cls r d h to =
     (case index_range cls r d h (m - 1) of
        Inl e \<Rightarrow> Inl e
      | Inr d1 \<Rightarrow> index_range cls r d1 m to)"
proof (induction "nat (m - h)" arbitrary: h d)
  case 0
  then have "m = h" by simp
  then show ?case by (simp add: index_range_empty)
next
  case (Suc n)
  then have lt: "h < m" "h \<le> to" "h \<le> m - 1" by auto
  have n: "n = nat (m - (h + 1))" using Suc.hyps(2) by auto
  have IH: "index_range cls r d' (h + 1) to =
     (case index_range cls r d' (h + 1) (m - 1) of
        Inl e \<Rightarrow> Inl e
      | Inr d1 \<Rightarrow> index_range cls r d1 m to)" for d'
    using Suc.hyps(1) [OF n, of d'] lt Suc.prems by simp
  show ?case
    by (simp add: index_range_step [OF lt(2)] index_range_step [OF lt(3)] IH
        split: sum.splits)
qed

lemma index_range_fails_on:
  "index_range cls r d f f = Inl e \<Longrightarrow> f \<le> to \<Longrightarrow> index_range cls r d f to = Inl e"
  by (auto simp: index_range_step [of f to] index_range_step [of f f] index_range_empty
      split: sum.splits)

lemma batch_start_first: "0 < b \<Longrightarrow> h \<le> f \<Longrightarrow> f < h + b \<Longrightarrow> batch_start b h f = h"
  by (simp add: batch_start_def)

lemma batch_start_next: "0 < b \<Longrightarrow> h + b \<le> f \<Longrightarrow> batch_start b (h + b) f = batch_start b h f"
proof -
  assume b: "0 < b" and "h + b \<le> f"
  have "(f - h) div b = ((f - (h + b)) + b) div b"
    by (simp add: algebra_simps)
  also have "\<dots> = (f - (h + b)) div b + 1"
    using b by (intro div_add_self2) simp
  finally show ?thesis
    by (simp add: batch_start_def algebra_simps)
qed

lemma idle_transaction [simp]:
  "beginTransaction (idle d) = idle d"
  "rollback (idle d) = idle d"
  "commit (idle d\<lparr>working := d'\<rparr>) = idle d'"
  "working (idle d) = d"
  "committed (idle d) = d"
  by (simp_all add: idle_def beginTransaction_def rollback_def commit_def)

lemma syncBlocks_done: "to < h \<Longrightarrow> syncBlocks cls r b (idle d) h to = Some (None, idle d)"
  by (simp add: syncBlocks.simps [of cls r b "idle d" h to])

lemma syncBlocks_step:
  "h \<le> to \<Longrightarrow> syncBlocks cls r b (idle d) h to =
     (case index_range cls r d h (min (h + b - 1) to) of
        Inr d1 \<Rightarrow> syncBlocks cls r b (idle d1) (h + b) to
      | Inl e \<Rightarrow> Some (Some e, idle d))"
  by (simp add: syncBlocks.simps [of cls r b "idle d" h to] Let_def split: sum.splits)

lemma syncBlocks_success:
  "0 < b \<Longrightarrow> index_range cls r d h to = Inr d' \<Longrightarrow>
   syncBlocks cls r b (idle d) h to = Some (None, idle d')"
proof (induction "nat (to + 1 - h)" arbitrary: h d rule: less_induct)
  case less
  show ?case
  proof (cases "h \<le> to")
    case False
    with less.prems show ?thesis
      by (simp add: syncBlocks_done index_range_empty)
  next
    case True
    define e where "e = min (h + b - 1) to"
    have e: "h \<le> e + 1" "e + 1 \<le> to + 1" "e \<le> to"
      using less.prems(1) True by (auto simp: e_def)
    from index_range_split [OF e(1,2), of cls r d] less.prems(2)
    obtain d1 where d1: "index_range cls r d h e = Inr d1"
      "index_range cls r d1 (e + 1) to = Inr d'"
      by (auto split: sum.splits)
    show ?thesis
    proof (cases "h + b - 1 \<le> to")
      case full: True
      then have eq: "e + 1 = h + b" by (simp add: e_def)
      have "nat (to + 1 - (h + b)) < nat (to + 1 - h)"
        using less.prems(1) True by auto
      from less.hyps [OF this less.prems(1), of d1] d1(2) eq
      have "syncBlocks cls r b (idle d1) (h + b) to = Some (None, idle d')"
        by simp
      with d1(1) show ?thesis
        by (simp add: syncBlocks_step [OF True] e_def)
    next
      case last: False
      then have eq: "e = to" and beyond: "to < h + b" by (auto simp: e_def)
      from d1(2) eq have "d' = d1"
        by (simp add: index_range_empty)
      with d1(1) eq beyond show ?thesis
        by (simp add: syncBlocks_step [OF True] e_def syncBlocks_done)
    qed
  qed
qed

lemma syncBlocks_failure:
  "0 < b \<Longrightarrow> h \<le> f \<Longrightarrow> f \<le> to \<Longrightarrow>
   index_range cls r d h (f - 1) = Inr d1 \<Longrightarrow> index_range cls r d1 f f = Inl e \<Longrightarrow>
   \<exists>d0. index_range cls r d h (batch_start b h f - 1) = Inr d0 \<and>
        syncBlocks cls r b (idle d) h to = Some (Some e, idle d0)"
proof (induction "nat (f - h)" arbitrary: h d rule: less_induct)
  case less
  have hto: "h \<le> to" using less.prems by simp
  define en where "en = min (h + b - 1) to"
  show ?case
  proof (cases "f \<le> en")
    case True
    then have inside: "f < h + b" by (simp add: en_def)
    have "index_range cls r d1 f en = Inl e"
      using less.prems(5) True by (rule index_range_fails_on)
    moreover have "index_range cls r d h en =
        (case index_range cls r d h (f - 1) of
           Inl e \<Rightarrow> Inl e | Inr d1 \<Rightarrow> index_range cls r d1 f en)"
      using less.prems(2) True by (intro index_range_split) auto
    ultimately have "index_range cls r d h en = Inl e"
      using less.prems(4) by simp
    then have "syncBlocks cls r b (idle d) h to = Some (Some e, idle d)"
      by (simp add: syncBlocks_step [OF hto] en_def)
    moreover have "batch_start b h f = h"
      using less.prems(1,2) inside by (rule batch_start_first)
    ultimately show ?thesis
      by (simp add: index_range_empty)
  next
    case False
    then have en: "en = h + b - 1" "h + b \<le> f" "en < to"
      using less.prems(3) by (auto simp: en_def)
    have "index_range cls r d h (f - 1) =
        (case index_range cls r d h en of
           Inl e \<Rightarrow> Inl e | Inr d2 \<Rightarrow> index_range cls r d2 (h + b) (f - 1))"
      using index_range_split [of h "h + b" "f - 1" cls r d] less.prems(1) en by simp
    with less.prems(4) obtain d2 where d2: "index_range cls r d h en = Inr d2"
      "index_range cls r d2 (h + b) (f - 1) = Inr d1"
      by (auto split: sum.splits)
    have "nat (f - (h + b)) < nat (f - h)"
      using less.prems(1) en by auto
    from less.hyps [OF this less.prems(1) en(2) less.prems(3) d2(2) less.prems(5)]
    obtain d0 where d0: "index_range cls r d2 (h + b) (batch_start b (h + b) f - 1) = Inr d0"
      "syncBlocks cls r b (idle d2) (h + b) to = Some (Some e, idle d0)"
      by auto
    have bs: "batch_start b (h + b) f = batch_start b h f"
      using less.prems(1) en(2) by (rule batch_start_next)
    have "0 < (f - h) div b"
      using less.prems(1) en(2) by (simp add: pos_imp_zdiv_pos_iff)
    then have "1 * b \<le> ((f - h) div b) * b"
      using less.prems(1) by (intro mult_right_mono) auto
    then have ge: "h + b \<le> batch_start b h f"
      by (simp add: batch_start_def)
    have "index_range cls r d h (batch_start b h f - 1) =
        (case index_range cls r d h en of
           Inl e \<Rightarrow> Inl e
         | Inr d2 \<Rightarrow> index_range cls r d2 (h + b) (batch_start b h f - 1))"
      using index_range_split [of h "h + b" "batch_start b h f - 1" cls r d] less.prems(1) en ge
      by simp
    with d2(1) d0(1) bs have "index_range cls r d h (batch_start b h f - 1) = Inr d0"
      by simp
    moreover have "syncBlocks cls r b (idle d) h to = Some (Some e, idle d0)"
      using d2(1) d0(2) by (simp add: syncBlocks_step [OF hto] en_def [symmetric])
    ultimately show ?thesis
      by blast
  qed
qed
lemma coinbase_range_1: "index_range BitcoinIndexer coinbase_node empty_lite_db 1 1 = Inr once_db"
  by (simp add: index_range_step [of 1 1] index_range_empty coinbase_block_1
      coinbase_indexBlock_first)

lemma coinbase_range_2: "index_range BitcoinIndexer coinbase_node d 2 2 = Inl (RpcError (- 8))"
  by (simp add: index_range_step [of 2 2] getBlockByHeight_rpc_def coinbase_node_def
      coinbase_getBlockHash_def)

text \<open>
  C4, as the code has it. \<open>syncBlocks\<close> of the SQLite indexers, with a batch size
  \<open>b\<close> of at least 1, takes the heights in increasing order in batches of \<open>b\<close>
  consecutive heights (the last one may be shorter) and wraps each batch, not each
  block, in one store transaction. When every block of the range is indexed without
  an error, the call returns and what is committed is the result of indexing all the
  heights in increasing order. When height \<open>f\<close> is the first to fail, the call returns
  that error and what is committed is the result of indexing the heights below the
  first height of the batch of \<open>f\<close>: the blocks of that batch indexed before the
  failure are rolled back with it, and no later batch is started.
\<close>

theorem sync_commits_whole_batches:
  "(0 < b \<and> index_range cls r d h to = Inr d' \<longrightarrow>
      syncBlocks cls r b (idle d) h to = Some (None, idle d')) \<and>
   (0 < b \<and> h \<le> f \<and> f \<le> to \<and> index_range cls r d h (f - 1) = Inr dp \<and>
    index_range cls r dp f f = Inl e \<longrightarrow>
      (\<exists>d0. index_range cls r d h (batch_start b h f - 1) = Inr d0 \<and>
            syncBlocks cls r b (idle d) h to = Some (Some e, idle d0)))"
  using syncBlocks_success [of b cls r d h to d']
    syncBlocks_failure [of b h f to cls r d dp e]
  by blast

theorem sync_commits_whole_batches_witness:
  "syncBlocks BitcoinIndexer coinbase_node 3 (idle empty_lite_db) 1 1 = Some (None, idle once_db) \<and>
   syncBlocks BitcoinIndexer coinbase_node 1 (idle empty_lite_db) 1 2 =
     Some (Some (RpcError (- 8)), idle once_db)"
proof -
  have a: "(0::int) < 3 \<and> index_range BitcoinIndexer coinbase_node empty_lite_db 1 1 = Inr once_db"
    by (simp add: coinbase_range_1)
  have b: "(0::int) < 1 \<and> (1::int) \<le> 2 \<and> (2::int) \<le> 2 \<and>
      index_range BitcoinIndexer coinbase_node empty_lite_db 1 (2 - 1) = Inr once_db \<and>
      index_range BitcoinIndexer coinbase_node once_db 2 2 = Inl (RpcError (- 8))"
    by (simp add: coinbase_range_1 coinbase_range_2)
  from sync_commits_whole_batches
         [where b = 3 and cls = BitcoinIndexer and r = coinbase_node and d = empty_lite_db
            and h = 1 and to = 1 and d' = once_db] a
  have 1: "syncBlocks BitcoinIndexer coinbase_node 3 (idle empty_lite_db) 1 1 =
      Some (None, idle once_db)"
    by blast
  from sync_commits_whole_batches
         [where b = 1 and cls = BitcoinIndexer and r = coinbase_node and d = empty_lite_db
            and h = 1 and to = 2 and f = 2 and dp = once_db and e = "RpcError (- 8)"] b
  have 2: "\<exists>d0. index_range BitcoinIndexer coinbase_node empty_lite_db 1 (batch_start 1 1 2 - 1) = Inr d0 \<and>
         syncBlocks BitcoinIndexer coinbase_node 1 (idle empty_lite_db) 1 2 =
           Some (Some (RpcError (- 8)), idle d0)"
    by blast
  have "batch_start 1 1 2 - 1 = 1"
    by (simp add: batch_start_def)
  with 2 have "syncBlocks BitcoinIndexer coinbase_node 1 (idle empty_lite_db) 1 2 =
     Some (Some (RpcError (- 8)), idle once_db)"
    by (auto simp: coinbase_range_1)
  with 1 show ?thesis
    by simp
qed

text \<open>
  With the batch size 100, a sync of heights 1 and 2 whose second block the node does
  not have: block 1 alone is indexed without an error, yet after the failure at
  height 2 nothing of it is committed, since both heights were in one transaction.
\<close>

theorem two_blocks_one_transaction_counterexample:
  "index_range BitcoinIndexer coinbase_node empty_lite_db 1 1 = Inr once_db \<and>
   map lb_height (l_blocks once_db) = [1] \<and>
   syncBlocks BitcoinIndexer coinbase_node 100 (idle empty_lite_db) 1 2 =
     Some (Some (RpcError (- 8)), idle empty_lite_db)"
proof -
  have "index_range BitcoinIndexer coinbase_node empty_lite_db 1 2 = Inl (RpcError (- 8))"
    using index_range_split [of 1 2 2 BitcoinIndexer coinbase_node empty_lite_db]
    by (simp add: coinbase_range_1 coinbase_range_2)
  then have "syncBlocks BitcoinIndexer coinbase_node 100 (idle empty_lite_db) 1 2 =
     Some (Some (RpcError (- 8)), idle empty_lite_db)"
    by (simp add: syncBlocks_step [of 1 2])
  then show ?thesis
    by (simp add: coinbase_range_1 once_db_def)
qed

section \<open>The genesis block\<close>









section \<open>A node whose second block spends an output of the first\<close>

lemma fifty_coins_and_one:
  "Math_round (js_mul (js_number 5000000001 100000000) coin) = 5000000001"
  by (simp add: bits.simps js_number_def js_mul_def coin_def round53_def round_half_even_def
      Math_round_def Let_def)

lemma pay_block_1: "getBlockByHeight_rpc spend_node 1 = Inr pay_block"
  by (simp add: getBlockByHeight_rpc_def spend_node_def spend_getBlockHash_def spend_getBlock_def)

lemma spend_block_2: "getBlockByHeight_rpc spend_node 2 = Inr spend_block"
  by (simp add: getBlockByHeight_rpc_def spend_node_def spend_getBlockHash_def spend_getBlock_def)

lemma pay_block_indexed:
  "indexBlock BitcoinIndexer spend_node empty_lite_db pay_block = Inr paid_db"
  by (simp add: sqlite_defs pay_block_def spend_node_def spend_getTransaction_def
      coinbase_tx_def respend_tx_def fifty_coins empty_lite_db_def paid_db_def)

lemma spend_block_indexed:
  "indexBlock BitcoinIndexer spend_node paid_db spend_block = Inr respent_db"
  by (simp add: sqlite_defs spend_block_def spend_node_def spend_getTransaction_def
      overspend_tx_def fifty_coins_and_one paid_db_def respent_db_def)

lemma spend_range_1: "index_range BitcoinIndexer spend_node empty_lite_db 1 1 = Inr paid_db"
  by (simp add: index_range_step [of 1 1] index_range_empty pay_block_1 pay_block_indexed)

lemma spend_range_2: "index_range BitcoinIndexer spend_node empty_lite_db 1 2 = Inr respent_db"
  by (simp add: index_range_step [of 1 2] index_range_step [of 2 2] index_range_empty
      pay_block_1 pay_block_indexed spend_block_2 spend_block_indexed)
section \<open>Spending an output\<close>

text \<open>
  C7, as the code has it. \<open>DatabaseService.spendUTXO\<close> sets the spent fields of the
  UTXO rows with the given key and nothing else: every row stays, with its key,
  address, value, script, height and time, rows with another key are untouched, and
  so are the other tables. \<open>markOutputAsSpent\<close> of the SQLite indexers does the same
  on the \<open>transaction_outputs\<close> row (spent flag, spending transaction and input
  index), and deletes the row of the \<open>utxos\<close> table at once. Neither looks at a
  height or at \<open>reorgProtectionBlocks\<close>; no code removes a row by its depth.
\<close>

theorem spending_keeps_rows_but_drops_utxo:
  "blocks (spendUTXO s txid n st si h) = blocks s \<and>
   transactions (spendUTXO s txid n st si h) = transactions s \<and>
   inputs (spendUTXO s txid n st si h) = inputs s \<and>
   outputs (spendUTXO s txid n st si h) = outputs s \<and>
   addresses (spendUTXO s txid n st si h) = addresses s \<and>
   last_processed_height (spendUTXO s txid n st si h) = last_processed_height s \<and>
   map utxo_core (utxos (spendUTXO s txid n st si h)) = map utxo_core (utxos s) \<and>
   filter (\<lambda>u. \<not> (u_transaction_id u = txid \<and> u_output_index u = n))
       (utxos (spendUTXO s txid n st si h)) =
     filter (\<lambda>u. \<not> (u_transaction_id u = txid \<and> u_output_index u = n)) (utxos s) \<and>
   filter (\<lambda>u. u_transaction_id u = txid \<and> u_output_index u = n)
       (utxos (spendUTXO s txid n st si h)) =
     map (\<lambda>u. u\<lparr>u_is_spent := True, u_spent_by_txid := Some st,
                  u_spent_by_input_index := Some si, u_spent_at_height := Some h\<rparr>)
       (filter (\<lambda>u. u_transaction_id u = txid \<and> u_output_index u = n) (utxos s)) \<and>
   l_blocks (markOutputAsSpent d txid n st' sv) = l_blocks d \<and>
   l_transactions (markOutputAsSpent d txid n st' sv) = l_transactions d \<and>
   l_inputs (markOutputAsSpent d txid n st' sv) = l_inputs d \<and>
   l_addresses (markOutputAsSpent d txid n st' sv) = l_addresses d \<and>
   map output_core (l_outputs (markOutputAsSpent d txid n st' sv)) = map output_core (l_outputs d) \<and>
   filter (\<lambda>out. \<not> (lo_txid out = txid \<and> lo_vout out = n))
       (l_outputs (markOutputAsSpent d txid n st' sv)) =
     filter (\<lambda>out. \<not> (lo_txid out = txid \<and> lo_vout out = n)) (l_outputs d) \<and>
   filter (\<lambda>out. lo_txid out = txid \<and> lo_vout out = n)
       (l_outputs (markOutputAsSpent d txid n st' sv)) =
     map (\<lambda>out. out\<lparr>lo_is_spent := True, lo_spent_txid := Some st', lo_spent_vout := Some sv\<rparr>)
       (filter (\<lambda>out. lo_txid out = txid \<and> lo_vout out = n) (l_outputs d)) \<and>
   l_utxos (markOutputAsSpent d txid n st' sv) =
     filter (\<lambda>u. \<not> (lu_txid u = txid \<and> lu_vout u = n)) (l_utxos d)"
proof -
  have us: "utxos (spendUTXO s txid n st si h) =
        map (\<lambda>u. if u_transaction_id u = txid \<and> u_output_index u = n
                  then u\<lparr>u_is_spent := True, u_spent_by_txid := Some st,
                         u_spent_by_input_index := Some si, u_spent_at_height := Some h\<rparr>
                  else u) (utxos s)"
    by (simp add: spendUTXO_def)
  have os: "l_outputs (markOutputAsSpent d txid n st' sv) =
        map (\<lambda>out. if lo_txid out = txid \<and> lo_vout out = n
                    then out\<lparr>lo_is_spent := True, lo_spent_txid := Some st',
                             lo_spent_vout := Some sv\<rparr>
                    else out) (l_outputs d)"
    by (simp add: markOutputAsSpent_def Let_def)
  have b': "filter (\<lambda>u. u_transaction_id u = txid \<and> u_output_index u = n)
       (utxos (spendUTXO s txid n st si h)) =
     map (\<lambda>u. u\<lparr>u_is_spent := True, u_spent_by_txid := Some st,
                  u_spent_by_input_index := Some si, u_spent_at_height := Some h\<rparr>)
       (filter (\<lambda>u. u_transaction_id u = txid \<and> u_output_index u = n) (utxos s))"
    unfolding us by (intro filter_map_if_hit) simp
  have e': "filter (\<lambda>out. lo_txid out = txid \<and> lo_vout out = n)
       (l_outputs (markOutputAsSpent d txid n st' sv)) =
     map (\<lambda>out. out\<lparr>lo_is_spent := True, lo_spent_txid := Some st', lo_spent_vout := Some sv\<rparr>)
       (filter (\<lambda>out. lo_txid out = txid \<and> lo_vout out = n) (l_outputs d))"
    unfolding os by (intro filter_map_if_hit) simp
  have a: "map utxo_core (utxos (spendUTXO s txid n st si h)) = map utxo_core (utxos s)"
    unfolding spendUTXO_def by (simp add: map_map_if utxo_core_def)
  have b: "filter (\<lambda>u. \<not> (u_transaction_id u = txid \<and> u_output_index u = n))
       (utxos (spendUTXO s txid n st si h)) =
     filter (\<lambda>u. \<not> (u_transaction_id u = txid \<and> u_output_index u = n)) (utxos s)"
  proof -
    have "utxos (spendUTXO s txid n st si h) =
        map (\<lambda>u. if u_transaction_id u = txid \<and> u_output_index u = n
                  then u\<lparr>u_is_spent := True, u_spent_by_txid := Some st,
                         u_spent_by_input_index := Some si, u_spent_at_height := Some h\<rparr>
                  else u) (utxos s)"
      by (simp add: spendUTXO_def)
    then show ?thesis
      unfolding \<open>utxos (spendUTXO s txid n st si h) = _\<close>
      by (intro filter_map_if) simp
  qed
  have c: "map output_core (l_outputs (markOutputAsSpent d txid n st' sv)) = map output_core (l_outputs d)"
    unfolding markOutputAsSpent_def by (simp add: map_map_if output_core_def Let_def)
  have e: "filter (\<lambda>out. \<not> (lo_txid out = txid \<and> lo_vout out = n))
       (l_outputs (markOutputAsSpent d txid n st' sv)) =
     filter (\<lambda>out. \<not> (lo_txid out = txid \<and> lo_vout out = n)) (l_outputs d)"
  proof -
    have "l_outputs (markOutputAsSpent d txid n st' sv) =
        map (\<lambda>out. if lo_txid out = txid \<and> lo_vout out = n
                    then out\<lparr>lo_is_spent := True, lo_spent_txid := Some st',
                             lo_spent_vout := Some sv\<rparr>
                    else out) (l_outputs d)"
      by (simp add: markOutputAsSpent_def Let_def)
    then show ?thesis
      unfolding \<open>l_outputs (markOutputAsSpent d txid n st' sv) = _\<close>
      by (intro filter_map_if) simp
  qed
  have f: "l_utxos (markOutputAsSpent d txid n st' sv) =
     filter (\<lambda>u. \<not> (lu_txid u = txid \<and> lu_vout u = n)) (l_utxos d)"
    by (simp add: markOutputAsSpent_def Let_def)
  have g: "blocks (spendUTXO s txid n st si h) = blocks s"
    "transactions (spendUTXO s txid n st si h) = transactions s"
    "inputs (spendUTXO s txid n st si h) = inputs s"
    "outputs (spendUTXO s txid n st si h) = outputs s"
    "addresses (spendUTXO s txid n st si h) = addresses s"
    "last_processed_height (spendUTXO s txid n st si h) = last_processed_height s"
    by (simp_all add: spendUTXO_def)
  have i: "l_blocks (markOutputAsSpent d txid n st' sv) = l_blocks d"
    "l_transactions (markOutputAsSpent d txid n st' sv) = l_transactions d"
    "l_inputs (markOutputAsSpent d txid n st' sv) = l_inputs d"
    "l_addresses (markOutputAsSpent d txid n st' sv) = l_addresses d"
    by (simp_all add: markOutputAsSpent_def Let_def)
  show ?thesis
    by (intro conjI a b b' c e e' f g i)
qed

theorem spending_keeps_rows_but_drops_utxo_witness:
  "map (\<lambda>out. (lo_txid out, lo_vout out, lo_is_spent out, lo_spent_txid out, lo_spent_vout out))
       (l_outputs (markOutputAsSpent paid_db ''t1'' 0 ''t2'' 0)) =
     [(''cb'', 0, True, Some ''t1'', Some 0), (''t1'', 0, True, Some ''t2'', Some 0)] \<and>
   map output_core (l_outputs (markOutputAsSpent paid_db ''t1'' 0 ''t2'' 0)) =
     map output_core (l_outputs paid_db) \<and>
   l_utxos (markOutputAsSpent paid_db ''t1'' 0 ''t2'' 0) = []"
proof -
  have o: "map (\<lambda>out. (lo_txid out, lo_vout out, lo_is_spent out, lo_spent_txid out, lo_spent_vout out))
       (l_outputs (markOutputAsSpent paid_db ''t1'' 0 ''t2'' 0)) =
     [(''cb'', 0, True, Some ''t1'', Some 0), (''t1'', 0, True, Some ''t2'', Some 0)]"
    by (simp add: markOutputAsSpent_def paid_db_def Let_def)
  from spending_keeps_rows_but_drops_utxo
         [of empty_db "''t1''" 0 "''t2''" 0 2 paid_db "''t2''" 0] o
  show ?thesis
    by (simp add: paid_db_def)
qed

text \<open>
  On the node of the previous section, \<open>BitcoinIndexer\<close> starts from the empty store.
  After block 1 the UTXO table holds the output of t1, created at height 1. Block 1
  has two confirmations when block 2 is the tip, fewer than the six of the protection
  window; yet after blocks 1 and 2 the row of that output is gone from the UTXO table,
  deleted when the spending transaction t2 was indexed, while its row in the output
  table is kept and marked spent.
\<close>

theorem utxo_removed_inside_window_counterexample:
  "syncBlocks BitcoinIndexer spend_node 100 (idle empty_lite_db) 1 1 = Some (None, idle paid_db) \<and>
   map (\<lambda>u. (lu_txid u, lu_vout u, lu_block_height u)) (l_utxos paid_db) = [(''t1'', 0, 1)] \<and>
   blk_confirmations pay_block = confirmations_at 2 1 \<and>
   confirmations_at 2 1 \<le> reorgProtectionBlocks \<and>
   syncBlocks BitcoinIndexer spend_node 100 (idle empty_lite_db) 1 2 = Some (None, idle respent_db) \<and>
   map (\<lambda>u. (lu_txid u, lu_vout u, lu_block_height u)) (l_utxos respent_db) = [(''t2'', 0, 2)] \<and>
   map (\<lambda>out. (lo_txid out, lo_vout out, lo_is_spent out, lo_spent_txid out)) (l_outputs respent_db) =
     [(''cb'', 0, True, Some ''t1''), (''t1'', 0, True, Some ''t2''), (''t2'', 0, False, None)]"
proof -
  have 1: "syncBlocks BitcoinIndexer spend_node 100 (idle empty_lite_db) 1 1 = Some (None, idle paid_db)"
    using spend_range_1 by (intro syncBlocks_success) simp_all
  have 2: "syncBlocks BitcoinIndexer spend_node 100 (idle empty_lite_db) 1 2 = Some (None, idle respent_db)"
    using spend_range_2 by (intro syncBlocks_success) simp_all
  from 1 2 show ?thesis
    by (simp add: paid_db_def respent_db_def pay_block_def confirmations_at_def
        reorgProtectionBlocks_def)
qed
section \<open>The fee of a transaction\<close>

lemma find_value_kv:
  "map kv xs = map kv ys \<Longrightarrow>
   map_option lo_value (find (\<lambda>out. lo_txid out = t \<and> lo_vout out = v) xs) =
   map_option lo_value (find (\<lambda>out. lo_txid out = t \<and> lo_vout out = v) ys)"
proof (induction xs arbitrary: ys)
  case Nil
  then show ?case by simp
next
  case (Cons x xs)
  then obtain y ys' where ys: "ys = y # ys'" "kv x = kv y" "map kv xs = map kv ys'"
    by (cases ys) auto
  from ys Cons.IH [OF ys(3)] show ?case
    by (simp add: kv_def)
qed

lemma input_value_kv:
  "map kv (l_outputs d) = map kv (l_outputs d') \<Longrightarrow> input_value d input = input_value d' input"
  using find_value_kv [of "l_outputs d" "l_outputs d'" "the (in_txid input)" "the (in_vout input)"]
  by (auto simp: input_value_def getPreviousOutput_def split: option.splits)

lemma kv_markOutputAsSpent [simp]:
  "map kv (l_outputs (markOutputAsSpent d t v st sv)) = map kv (l_outputs d)"
  by (simp add: markOutputAsSpent_def Let_def map_map_if kv_def)

lemma frame_updateAddressInfo [simp]:
  "l_outputs (updateAddressInfo d a v r h) = l_outputs d"
  "l_transactions (updateAddressInfo d a v r h) = l_transactions d"
  by (simp_all add: updateAddressInfo_def Let_def)

lemma frame_markOutputAsSpent [simp]:
  "l_transactions (markOutputAsSpent d t v st sv) = l_transactions d"
  by (simp add: markOutputAsSpent_def Let_def)

lemma insert_input_Inr:
  "insert_input d row = Inr d1 \<Longrightarrow>
   l_outputs d1 = l_outputs d \<and> l_transactions d1 = l_transactions d"
  by (auto simp: insert_input_def split: if_splits)

lemma insert_output_Inr:
  "insert_output d row = Inr d1 \<Longrightarrow> l_transactions d1 = l_transactions d"
  by (auto simp: insert_output_def split: if_splits)

lemma addUTXO_Inr:
  "addUTXO d u = Inr d1 \<Longrightarrow> l_transactions d1 = l_transactions d \<and> l_outputs d1 = l_outputs d"
  by (auto simp: addUTXO_def split: if_splits)

lemma index_inputs_step:
  assumes "index_inputs cls tx d a i (input # rest) = Inr (d', acc)"
  shows "\<exists>dx. index_inputs cls tx dx (a + input_value d input) (i + 1) rest = Inr (d', acc) \<and>
              map kv (l_outputs dx) = map kv (l_outputs d) \<and>
              l_transactions dx = l_transactions d"
proof (cases "truthy (in_coinbase input)")
  case True
  with assms obtain d1 where d1:
    "insert_input d \<lparr>li_txid = tx_txid tx, li_vout = i, li_prev_txid = None,
                      li_prev_vout = None, li_prev_value = None, li_prev_address = None\<rparr> = Inr d1"
    "index_inputs cls tx d1 a (i + 1) rest = Inr (d', acc)"
    by (auto split: sum.splits)
  from True have "input_value d input = 0"
    by (simp add: input_value_def)
  with d1 insert_input_Inr [OF d1(1)] show ?thesis
    by auto
next
  case False
  show ?thesis
  proof (cases "truthy (in_txid input) \<and> in_vout input \<noteq> None")
    case no: False
    with False have "input_value d input = 0"
      by (auto simp: input_value_def)
    with False no assms show ?thesis
      by auto
  next
    case yes: True
    define pt where "pt = the (in_txid input)"
    define pv where "pv = the (in_vout input)"
    define prev where "prev = getPreviousOutput d pt pv"
    define row where "row = \<lparr>li_txid = tx_txid tx, li_vout = i,
        li_prev_txid = Some pt, li_prev_vout = Some pv,
        li_prev_value = (case prev of None \<Rightarrow> None
                         | Some out \<Rightarrow> if lo_value out = 0 then None else Some (lo_value out)),
        li_prev_address = (case prev of None \<Rightarrow> None
                           | Some out \<Rightarrow> if truthy (lo_address out) then lo_address out else None)\<rparr>"
    have iv: "input_value d input = (case prev of None \<Rightarrow> 0 | Some out \<Rightarrow> lo_value out)"
      using False yes by (simp add: input_value_def prev_def pt_def pv_def)
    from False yes assms obtain d1 where d1: "insert_input d row = Inr d1"
      by (auto simp: Let_def row_def prev_def pt_def pv_def split: sum.splits)
    define d2 where "d2 = markOutputAsSpent d1 pt pv (tx_txid tx) i"
    have f2: "map kv (l_outputs d2) = map kv (l_outputs d)" "l_transactions d2 = l_transactions d"
      using insert_input_Inr [OF d1] by (simp_all add: d2_def)
    have run: "index_inputs cls tx d a i (input # rest) =
        (case prev of
           None \<Rightarrow> index_inputs cls tx d2 a (i + 1) rest
         | Some out \<Rightarrow>
             if lo_value out = 0 then index_inputs cls tx d2 a (i + 1) rest
             else if cls = SimpleIndexer \<and> truthy (lo_address out)
             then index_inputs cls tx
                    (updateAddressInfo d2 (the (lo_address out)) (lo_value out) False (tx_blockheight tx))
                    (a + lo_value out) (i + 1) rest
             else index_inputs cls tx d2 (a + lo_value out) (i + 1) rest)"
      using False yes d1
      by (cases cls)
         (auto simp: Let_def row_def [symmetric] prev_def [symmetric] pt_def [symmetric]
            pv_def [symmetric] d2_def [symmetric] truthy_def split: option.splits)
    show ?thesis
    proof (cases prev)
      case None
      with assms run iv f2 show ?thesis
        by auto
    next
      case (Some out)
      show ?thesis
      proof (cases "lo_value out = 0")
        case True
        with Some assms run iv f2 show ?thesis
          by auto
      next
        case nz: False
        show ?thesis
        proof (cases "cls = SimpleIndexer \<and> truthy (lo_address out)")
          case True
          with Some nz assms run have
            "index_inputs cls tx
               (updateAddressInfo d2 (the (lo_address out)) (lo_value out) False (tx_blockheight tx))
               (a + input_value d input) (i + 1) rest = Inr (d', acc)"
            by (simp add: iv)
          with f2 show ?thesis
            by (intro exI [of _ "updateAddressInfo d2 (the (lo_address out)) (lo_value out) False
                  (tx_blockheight tx)"]) simp
        next
          case False
          with Some nz assms run have
            "index_inputs cls tx d2 (a + input_value d input) (i + 1) rest = Inr (d', acc)"
            by (simp add: iv)
          with f2 show ?thesis
            by auto
        qed
      qed
    qed
  qed
qed

lemma index_inputs_total:
  "map kv (l_outputs d) = map kv (l_outputs d0) \<Longrightarrow>
   index_inputs cls tx d a i ins = Inr (d', acc) \<Longrightarrow>
   acc = a + sum_list (map (input_value d0) ins) \<and> l_transactions d' = l_transactions d"
proof (induction ins arbitrary: d a i)
  case Nil
  then show ?case by simp
next
  case (Cons input rest)
  have v: "input_value d0 input = input_value d input"
    by (rule input_value_kv) (rule Cons.prems(1) [symmetric])
  from index_inputs_step [OF Cons.prems(2)]
  obtain dx where dx: "index_inputs cls tx dx (a + input_value d input) (i + 1) rest = Inr (d', acc)"
    "map kv (l_outputs dx) = map kv (l_outputs d)" "l_transactions dx = l_transactions d"
    by blast
  from dx(2) Cons.prems(1) have "map kv (l_outputs dx) = map kv (l_outputs d0)"
    by simp
  from Cons.IH [OF this dx(1)] dx(3) v show ?case
    by simp
qed

lemma index_outputs_total:
  "index_outputs cls tx d a outs = Inr (d', acc) \<Longrightarrow>
   acc = a + sum_list (map (\<lambda>out. Math_round (js_mul (out_value out) coin)) outs) \<and>
   l_transactions d' = l_transactions d"
proof (induction outs arbitrary: d a)
  case Nil
  then show ?case by simp
next
  case (Cons out rest)
  define v where "v = Math_round (js_mul (out_value out) coin)"
  from Cons.prems obtain dx where dx:
    "index_outputs cls tx dx (a + v) rest = Inr (d', acc)" "l_transactions dx = l_transactions d"
    by (auto simp: Let_def v_def dest!: insert_output_Inr addUTXO_Inr split: sum.splits if_splits)
  from Cons.IH [OF dx(1)] dx(2) show ?case
    by (simp add: v_def)
qed

text \<open>
  C5, as the code has it. When \<open>indexTransaction\<close> of the SQLite indexers returns
  without an error of the store, the fee column of the transaction is
  \<open>totalInput - totalOutput\<close> (the stored values of the outputs its inputs refer to,
  minus the amounts of its outputs in minor units) if its first input is not a
  coinbase and \<open>totalInput\<close> is positive, whatever the sign of the difference.
  For a coinbase transaction, and when \<open>totalInput\<close> is 0, the column keeps what the
  insert gave it: the node's fee field if it has one, else null.
  \<open>DatabaseService.saveTransaction\<close> stores the fee 0 in every row it creates.
\<close>

theorem fee_is_difference_of_totals:
  "(indexTransaction cls d tx = Inr indexed \<longrightarrow>
      stored_fee indexed (tx_txid tx) =
        Some (if \<not> is_coinbase_tx tx \<and> 0 < input_total d tx
              then Some (of_int (input_total d tx - output_total tx))
              else node_fee tx)) \<and>
   (find (\<lambda>t. t_txid t = tx_txid txData) (transactions s) = None \<and>
    saveTransaction s txData h = Inr saved \<longrightarrow>
      map t_fee (transactions saved) = map t_fee (transactions s) @ [0])"
proof -
  define row where "row =
    \<lparr>lt_txid = tx_txid tx,
     lt_block_hash = (if truthy (tx_blockhash tx) then tx_blockhash tx else None),
     lt_block_height = (case tx_blockheight tx of
                          Some h \<Rightarrow> if h = 0 then None else Some h | None \<Rightarrow> None),
     lt_confirmations = (case tx_confirmations tx of Some c \<Rightarrow> c | None \<Rightarrow> 0),
     lt_fee = node_fee tx\<rparr>"
  have 1: "stored_fee indexed (tx_txid tx) =
        Some (if \<not> is_coinbase_tx tx \<and> 0 < input_total d tx
              then Some (of_int (input_total d tx - output_total tx))
              else node_fee tx)"
    if run: "indexTransaction cls d tx = Inr indexed"
  proof -
    from run obtain da where da: "insert_transaction d row = Inr da"
      by (auto simp: indexTransaction_def row_def node_fee_def split: sum.splits)
    with run obtain db ti where db: "index_inputs cls tx da 0 0 (tx_vin tx) = Inr (db, ti)"
      by (auto simp: indexTransaction_def row_def [symmetric] node_fee_def [symmetric]
          split: sum.splits)
    with run da obtain dc tot where dc: "index_outputs cls tx db 0 (tx_vout tx) = Inr (dc, tot)"
      by (auto simp: indexTransaction_def row_def [symmetric] node_fee_def [symmetric]
          split: sum.splits)
    have outs_da: "l_outputs da = l_outputs d"
      and txs_da: "l_transactions da =
          insert_or_replace (\<lambda>t. lt_txid t = lt_txid row) row (l_transactions d)"
      using da by (auto simp: insert_transaction_def split: if_splits)
    have ins: "ti = input_total d tx" "l_transactions db = l_transactions da"
      using index_inputs_total [of da d cls tx 0 0 "tx_vin tx" db ti] db outs_da
      by (simp_all add: input_total_def)
    have outs: "tot = output_total tx" "l_transactions dc = l_transactions da"
      using index_outputs_total [OF dc] ins(2)
      by (simp_all add: output_total_def)
    have found: "find (\<lambda>t. lt_txid t = tx_txid tx) (l_transactions da) = Some row"
      unfolding txs_da by (simp add: find_insert_or_replace row_def)
    have res: "indexed =
        (if \<not> is_coinbase_tx tx \<and> 0 < ti
         then dc\<lparr>l_transactions :=
                 map (\<lambda>t. if lt_txid t = tx_txid tx
                           then t\<lparr>lt_fee := Some (of_int (ti - tot))\<rparr> else t)
                     (l_transactions dc)\<rparr>
         else dc)"
      using run da db dc
      by (auto simp: indexTransaction_def row_def [symmetric] node_fee_def [symmetric] Let_def
          split: if_splits)
    show ?thesis
      unfolding res stored_fee_def
      by (simp add: ins outs found row_def
          find_map_if [where P = "\<lambda>t. lt_txid t = tx_txid tx"])
  qed
  have 2: "map t_fee (transactions saved) = map t_fee (transactions s) @ [0]"
    if "find (\<lambda>t. t_txid t = tx_txid txData) (transactions s) = None"
       "saveTransaction s txData h = Inr saved"
    using that
    by (auto simp: saveTransaction_def split: option.splits if_splits)
  from 1 2 show ?thesis
    by blast
qed

lemma overspend_indexed:
  "indexTransaction BitcoinIndexer
     (paid_db\<lparr>l_blocks := l_blocks paid_db @
        [\<lparr>lb_hash = ''b2'', lb_height = 2, lb_tx_count = 1, lb_confirmations = 1\<rparr>]\<rparr>)
     (in_block spend_block overspend_tx) = Inr respent_db"
  by (simp add: sqlite_defs spend_block_def overspend_tx_def fifty_coins_and_one paid_db_def
      respent_db_def)

lemma overspend_totals:
  "\<not> is_coinbase_tx (in_block spend_block overspend_tx)"
  "input_total (paid_db\<lparr>l_blocks := l_blocks paid_db @
        [\<lparr>lb_hash = ''b2'', lb_height = 2, lb_tx_count = 1, lb_confirmations = 1\<rparr>]\<rparr>)
     (in_block spend_block overspend_tx) = 5000000000"
  "output_total (in_block spend_block overspend_tx) = 5000000001"
  "tx_txid (in_block spend_block overspend_tx) = ''t2''"
  by (simp_all add: in_block_def overspend_tx_def paid_db_def is_coinbase_tx_def truthy_def
      input_total_def input_value_def getPreviousOutput_def output_total_def fifty_coins_and_one)

theorem fee_is_difference_of_totals_witness:
  "stored_fee respent_db ''t2'' = Some (Some (- 1)) \<and>
   map t_fee (transactions one_tx_db) = [0]"
proof -
  have s: "find (\<lambda>t. t_txid t = tx_txid orphan_tx) (transactions (one_tx_db\<lparr>transactions := []\<rparr>)) = None"
    "saveTransaction (one_tx_db\<lparr>transactions := []\<rparr>) orphan_tx 1 = Inr one_tx_db"
    by (simp_all add: saveTransaction_def one_tx_db_def orphan_tx_def orphan_input_def
        varchar_def varchar_null_def truthy_def)
  from fee_is_difference_of_totals
         [where cls = BitcoinIndexer
            and d = "paid_db\<lparr>l_blocks := l_blocks paid_db @
              [\<lparr>lb_hash = ''b2'', lb_height = 2, lb_tx_count = 1, lb_confirmations = 1\<rparr>]\<rparr>"
            and tx = "in_block spend_block overspend_tx" and indexed = respent_db
            and txData = orphan_tx and s = "one_tx_db\<lparr>transactions := []\<rparr>" and h = 1
            and saved = one_tx_db]
    overspend_indexed overspend_totals s
  show ?thesis
    by simp
qed

text \<open>
  On the node whose second block spends an output of the first, \<open>BitcoinIndexer\<close>
  starts from the empty store and indexes blocks 1 and 2. The transaction t2 spends
  an output of 5,000,000,000 minor units and pays 5,000,000,001: the fee -1 is stored
  in its row, and no error is raised.
\<close>

theorem negative_fee_counterexample:
  "syncBlocks BitcoinIndexer spend_node 100 (idle empty_lite_db) 1 2 = Some (None, idle respent_db) \<and>
   \<not> is_coinbase_tx overspend_tx \<and>
   input_total paid_db overspend_tx = 5000000000 \<and>
   output_total overspend_tx = 5000000001 \<and>
   stored_fee respent_db ''t2'' = Some (Some (- 1))"
proof -
  have 1: "syncBlocks BitcoinIndexer spend_node 100 (idle empty_lite_db) 1 2 = Some (None, idle respent_db)"
    using spend_range_2 by (intro syncBlocks_success) simp_all
  have 2: "\<not> is_coinbase_tx overspend_tx" "input_total paid_db overspend_tx = 5000000000"
    "output_total overspend_tx = 5000000001"
    by (simp_all add: overspend_tx_def paid_db_def is_coinbase_tx_def truthy_def
        input_total_def input_value_def getPreviousOutput_def output_total_def fifty_coins_and_one)
  have 3: "stored_fee respent_db ''t2'' = Some (Some (- 1))"
    by (simp add: stored_fee_def respent_db_def)
  from 1 2 3 show ?thesis
    by simp
qed
section \<open>Stored values of outputs\<close>

















section \<open>The balance invariant\<close>

lemma current_address_upd [simp]:
  "current_address (s\<lparr>addresses := (addresses s)(a \<mapsto> row)\<rparr>) a' =
     (if a' = a then row else current_address s a')"
  "current_address (s\<lparr>addresses := (addresses s)(a \<mapsto> row), utxos := us\<rparr>) a' =
     (if a' = a then row else current_address s a')"
  "current_address (s\<lparr>utxos := us\<rparr>) a' = current_address s a'"
  by (simp_all add: current_address_def)


lemma keys_spendUTXO [simp]:
  "utxo_keys (spendUTXO s t n st si h) = utxo_keys s"
  by (simp add: utxo_keys_def spendUTXO_def map_map_if)




lemma value_of_simps [simp]:
  "value_of a [] = 0"
  "value_of a (u # us) = (if u_address u = a then u_value u else 0) + value_of a us"
  by (simp_all add: value_of_def)

lemma stats_or_zero_simps [simp]:
  "stats_or_zero (Some c) = c"
  "st_totalReceived (stats_or_zero None) = 0"
  "st_totalSent (stats_or_zero None) = 0"
  "st_balance (stats_or_zero None) = 0"
  by (simp_all add: stats_or_zero_def)











end
